theory Spec2Isabelle
  imports Complex_Main "HOL-Library.Word" "HOL-Library.Log_Nat" "HOL-Library.AList"
begin

section \<open>JavaScript values\<close>

text \<open>
  The front end is JavaScript. Its strings are sequences of UTF-16 code units, so
  \<open>length\<close> below counts what \<^verbatim>\<open>.length\<close> counts. \<open>js\<close> embeds an ASCII literal.
\<close>

type_synonym jschar = "16 word"
type_synonym jsstring = "jschar list"

definition js :: "string \<Rightarrow> jsstring" where
  "js s = map (\<lambda>c. of_nat (of_char c)) s"

text \<open>
  A Number is a double. The finite ones are kept as the rational they denote (\<open>+0\<close> and
  \<open>-0\<close> are both \<open>Fin 0\<close>: the code only compares and tests truthiness, and neither
  tells them apart).
\<close>

datatype jsnum = NaN | Fin rat | PInf | NInf

text \<open>
  The values that \<^verbatim>\<open>JSON.parse\<close> and the DOM hand to this code: scalars and plain
  objects, an object being its own properties in creation order (JavaScript lists
  integer-like names first; none of the names this code tests is one). Arrays are left
  out.
\<close>

datatype jsval =
    JUndefined
  | JNull
  | JBool bool
  | JNum jsnum
  | JStr jsstring
  | JObj "(jsstring \<times> jsval) list"

type_synonym jsobj = "(jsstring \<times> jsval) list"

text \<open>
  Exceptions: \<open>Error m\<close> is \<^verbatim>\<open>new Error(m)\<close>, or a rejection of the environment that
  carries the message \<open>m\<close>; a \<open>TypeError\<close> is raised by the engine itself, for calling
  what is not a function, for reaching into \<^verbatim>\<open>null\<close> or \<^verbatim>\<open>undefined\<close>, or for an object
  that cannot be converted to a primitive. Its message is the engine's.
\<close>

datatype type_error = NotAFunction | NullOrUndefined | NotPrimitive

datatype js_error = Error jsstring | TypeError type_error

fun truthy :: "jsval \<Rightarrow> bool" where
  "truthy JUndefined = False"
| "truthy JNull = False"
| "truthy (JBool b) = b"
| "truthy (JNum NaN) = False"
| "truthy (JNum (Fin r)) = (r \<noteq> 0)"
| "truthy (JNum PInf) = True"
| "truthy (JNum NInf) = True"
| "truthy (JStr s) = (s \<noteq> [])"
| "truthy (JObj fs) = True"

text \<open>\<^verbatim>\<open>o[k]\<close>: the property, or \<^verbatim>\<open>undefined\<close> when there is none.\<close>

definition get :: "jsobj \<Rightarrow> jsstring \<Rightarrow> jsval" where
  "get obj k = (case map_of obj k of None \<Rightarrow> JUndefined | Some v \<Rightarrow> v)"

text \<open>\<^verbatim>\<open>Object.keys(o)\<close>.\<close>

definition keys :: "jsobj \<Rightarrow> jsstring list" where
  "keys obj = map fst obj"

text \<open>
  \<^verbatim>\<open>o[k] = v\<close> on a fresh object and \<^verbatim>\<open>{...o, [k]: v}\<close>: an existing property keeps
  its place, a new one goes last.
\<close>

definition set_prop :: "jsstring \<Rightarrow> jsval \<Rightarrow> jsobj \<Rightarrow> jsobj" where
  "set_prop k v obj = AList.update k v obj"

subsection \<open>String.prototype.trim\<close>

text \<open>WhiteSpace and LineTerminator code points of ECMAScript.\<close>

definition isWhiteSpace :: "jschar \<Rightarrow> bool" where
  "isWhiteSpace c \<longleftrightarrow>
     c = 0x9 \<or> c = 0xA \<or> c = 0xB \<or> c = 0xC \<or> c = 0xD \<or> c = 0x20 \<or> c = 0xA0 \<or>
     c = 0x1680 \<or> (0x2000 \<le> c \<and> c \<le> 0x200A) \<or> c = 0x2028 \<or> c = 0x2029 \<or>
     c = 0x202F \<or> c = 0x205F \<or> c = 0x3000 \<or> c = 0xFEFF"

definition trimStart :: "jsstring \<Rightarrow> jsstring" where
  "trimStart s = dropWhile isWhiteSpace s"

definition trim :: "jsstring \<Rightarrow> jsstring" where
  "trim s = rev (dropWhile isWhiteSpace (rev (dropWhile isWhiteSpace s)))"

text \<open>
  \<^verbatim>\<open>value.trim()\<close> on a value that passed \<^verbatim>\<open>!value\<close>: a string is trimmed, anything else
  has no callable \<^verbatim>\<open>trim\<close>.
\<close>

fun call_trim :: "jsval \<Rightarrow> js_error + jsstring" where
  "call_trim (JStr s) = Inr (trim s)"
| "call_trim v = Inl (TypeError NotAFunction)"

subsection \<open>parseFloat\<close>

text \<open>
  \<^verbatim>\<open>parseFloat(v)\<close> converts \<open>v\<close> to a string, drops leading white space, takes the
  longest prefix that is a StrDecimalLiteral and returns its numeric value; \<^verbatim>\<open>NaN\<close> when
  no prefix is one. What follows the prefix is ignored.
\<close>

definition isDigit :: "jschar \<Rightarrow> bool" where
  "isDigit c \<longleftrightarrow> 0x30 \<le> c \<and> c \<le> 0x39"

definition digitsValue :: "jsstring \<Rightarrow> nat" where
  "digitsValue ds = foldl (\<lambda>a c. 10 * a + (unat c - 48)) 0 ds"

text \<open>
  A parsed literal: \<open>Infinity neg\<close>, or \<open>Decimal neg ip fp ex\<close> with the digits before
  and after the point and the exponent (its sign and digits), \<open>neg\<close> for a leading minus.
\<close>

datatype StrDecimalLiteral =
    Infinity bool
  | Decimal bool jsstring jsstring "(bool \<times> jsstring) option"

text \<open>An ExponentPart at the head of \<open>s\<close>, if there is a complete one, and what follows.\<close>

definition parseExponent :: "jsstring \<Rightarrow> (bool \<times> jsstring) option \<times> jsstring" where
  "parseExponent s =
     (case s of
        [] \<Rightarrow> (None, s)
      | c # r \<Rightarrow>
          if c = 0x65 \<or> c = 0x45 then
            (let (neg, r') =
                   (case r of
                      [] \<Rightarrow> (False, r)
                    | d # r2 \<Rightarrow>
                        if d = 0x2B then (False, r2)
                        else if d = 0x2D then (True, r2)
                        else (False, r))
             in if takeWhile isDigit r' = [] then (None, s)
                else (Some (neg, takeWhile isDigit r'), dropWhile isDigit r'))
          else (None, s))"

definition parseUnsigned :: "bool \<Rightarrow> jsstring \<Rightarrow> (StrDecimalLiteral \<times> jsstring) option" where
  "parseUnsigned neg s =
     (if take 8 s = js ''Infinity'' then Some (Infinity neg, drop 8 s)
      else
        (let ip = takeWhile isDigit s; r1 = dropWhile isDigit s
         in case r1 of
              [] \<Rightarrow> if ip = [] then None else Some (Decimal neg ip [] None, [])
            | c # r2 \<Rightarrow>
                if c = 0x2E then
                  (let fp = takeWhile isDigit r2; r3 = dropWhile isDigit r2
                   in if ip = [] \<and> fp = [] then None
                      else (let (ex, r4) = parseExponent r3
                            in Some (Decimal neg ip fp ex, r4)))
                else if ip = [] then None
                else (let (ex, r4) = parseExponent r1
                      in Some (Decimal neg ip [] ex, r4))))"

text \<open>
  The longest StrDecimalLiteral that \<open>s\<close> starts with, parsed, and the rest of \<open>s\<close>.
\<close>

definition parsePrefix :: "jsstring \<Rightarrow> (StrDecimalLiteral \<times> jsstring) option" where
  "parsePrefix s =
     (case s of
        [] \<Rightarrow> None
      | c # r \<Rightarrow>
          if c = 0x2B then parseUnsigned False r
          else if c = 0x2D then parseUnsigned True r
          else parseUnsigned False s)"

text \<open>
  The Number value for a rational (ECMAScript 6.1.6.1): the nearest double, a tie going
  to the even significand, and infinity from \<open>2^1024\<close> on. The quantum is
  \<open>2^(e - 52)\<close> in the binade of exponent \<open>e\<close>, and \<open>2^-1074\<close> below \<open>2^-1022\<close>.
  \<open>ilog2 x\<close> is the exponent of the binade of a positive \<open>x\<close>. (For a literal of more
  than 20 significant digits the standard also lets an engine round from the 20th digit;
  the engines in use round the exact value, as here.)
\<close>

definition ilog2 :: "rat \<Rightarrow> int" where
  "ilog2 x =
     (let (a, b) = quotient_of x;
          k = bitlen a - bitlen b
      in if 2 powi k \<le> x then k else k - 1)"

definition roundHalfEven :: "rat \<Rightarrow> int" where
  "roundHalfEven x =
     (let f = \<lfloor>x\<rfloor>; d = x - of_int f
      in if d < 1 / 2 then f
         else if 1 / 2 < d then f + 1
         else if even f then f else f + 1)"

definition number_value :: "rat \<Rightarrow> jsnum" where
  "number_value x =
     (if x = 0 then Fin 0
      else
        (let m = \<bar>x\<bar>;
             e = max (ilog2 m) (- 1022);
             q = 2 powi (e - 52);
             r = of_int (roundHalfEven (m / q)) * q
         in if 2 powi 1024 \<le> r then (if 0 < x then PInf else NInf)
            else Fin (if 0 < x then r else - r)))"

text \<open>The mathematical value of a literal, then its Number value.\<close>

fun StringNumericValue :: "StrDecimalLiteral \<Rightarrow> jsnum" where
  "StringNumericValue (Infinity neg) = (if neg then NInf else PInf)"
| "StringNumericValue (Decimal neg ip fp ex) =
     (let e = (case ex of
                 None \<Rightarrow> 0
               | Some (eneg, ds) \<Rightarrow> if eneg then - int (digitsValue ds) else int (digitsValue ds));
          mv = of_nat (digitsValue (ip @ fp)) * 10 powi (e - int (length fp))
      in number_value (if neg then - mv else mv))"

text \<open>
  A Number argument is first printed, and printing a double and reading it back gives
  the double again. \<^verbatim>\<open>undefined\<close>, \<^verbatim>\<open>null\<close>, the booleans and a plain object print as
  text that starts no literal; an object with an own \<^verbatim>\<open>toString\<close> property (never
  callable in parsed JSON) cannot be printed.
\<close>

fun parseFloat :: "jsval \<Rightarrow> js_error + jsnum" where
  "parseFloat (JStr s) =
     (case parsePrefix (trimStart s) of
        None \<Rightarrow> Inr NaN
      | Some (lit, rest) \<Rightarrow> Inr (StringNumericValue lit))"
| "parseFloat (JNum n) = Inr n"
| "parseFloat (JObj fs) = (if js ''toString'' \<in> set (keys fs) then Inl (TypeError NotPrimitive) else Inr NaN)"
| "parseFloat v = Inr NaN"

fun isNaN :: "jsnum \<Rightarrow> bool" where
  "isNaN NaN = True"
| "isNaN n = False"

text \<open>\<^verbatim>\<open>a <= b\<close> and \<^verbatim>\<open>a > b\<close> on Numbers; both are false when either side is NaN.\<close>

fun num_le :: "jsnum \<Rightarrow> jsnum \<Rightarrow> bool" where
  "num_le NaN b = False"
| "num_le a NaN = False"
| "num_le NInf b = True"
| "num_le a PInf = True"
| "num_le PInf b = False"
| "num_le a NInf = False"
| "num_le (Fin x) (Fin y) = (x \<le> y)"

fun num_gt :: "jsnum \<Rightarrow> jsnum \<Rightarrow> bool" where
  "num_gt NaN b = False"
| "num_gt a NaN = False"
| "num_gt PInf PInf = False"
| "num_gt PInf b = True"
| "num_gt a PInf = False"
| "num_gt NInf b = False"
| "num_gt a NInf = True"
| "num_gt (Fin x) (Fin y) = (y < x)"

section \<open>TransactionConfirmationModal\<close>

text \<open>
  The component's state, as its four \<^verbatim>\<open>useState\<close> cells: the working copy
  (\<^verbatim>\<open>null\<close> before the first extraction arrives), the field being edited, and the
  two maps of messages.
\<close>

record modal_state =
  editedData :: "jsobj option"
  editingField :: "jsstring option"
  validationErrors :: jsobj
  warnings :: jsobj

subsection \<open>validateField\<close>

text \<open>
  The three \<^verbatim>\<open>if\<close> blocks of \<^verbatim>\<open>validateField\<close>, in the source's order, each taking
  and giving back the pair \<^verbatim>\<open>{ errors, warns }\<close>.
\<close>

definition check_amount :: "jsstring \<Rightarrow> jsval \<Rightarrow> jsobj \<times> jsobj \<Rightarrow> js_error + (jsobj \<times> jsobj)" where
  "check_amount field v ew =
     (case ew of (errors, warns) \<Rightarrow>
        if field = js ''amount'' then
          (case parseFloat v of
             Inl e \<Rightarrow> Inl e
           | Inr numValue \<Rightarrow>
               if isNaN numValue \<or> num_le numValue (Fin 0) then
                 Inr (set_prop field (JStr (js ''Amount must be a positive number'')) errors, warns)
               else if num_gt numValue (Fin 100000) then
                 Inr (errors, set_prop field (JStr (js ''Large amount detected - please verify'')) warns)
               else Inr (errors, warns))
        else Inr (errors, warns))"

definition check_name :: "jsstring \<Rightarrow> jsval \<Rightarrow> jsobj \<times> jsobj \<Rightarrow> js_error + (jsobj \<times> jsobj)" where
  "check_name field v ew =
     (case ew of (errors, warns) \<Rightarrow>
        if field = js ''sender'' \<or> field = js ''receiver'' then
          (if \<not> truthy v then
             Inr (set_prop field (JStr (js ''Name must be at least 2 characters'')) errors, warns)
           else
             (case call_trim v of
                Inl e \<Rightarrow> Inl e
              | Inr t \<Rightarrow>
                  if length t < 2 then
                    Inr (set_prop field (JStr (js ''Name must be at least 2 characters'')) errors, warns)
                  else Inr (errors, warns)))
        else Inr (errors, warns))"

definition check_transaction_id :: "jsstring \<Rightarrow> jsval \<Rightarrow> jsobj \<times> jsobj \<Rightarrow> js_error + (jsobj \<times> jsobj)" where
  "check_transaction_id field v ew =
     (case ew of (errors, warns) \<Rightarrow>
        if field = js ''transaction_id'' then
          (if \<not> truthy v then
             Inr (set_prop field (JStr (js ''Transaction ID must be at least 4 characters'')) errors, warns)
           else
             (case call_trim v of
                Inl e \<Rightarrow> Inl e
              | Inr t \<Rightarrow>
                  if length t < 4 then
                    Inr (set_prop field (JStr (js ''Transaction ID must be at least 4 characters'')) errors, warns)
                  else Inr (errors, warns)))
        else Inr (errors, warns))"

definition validateField :: "jsstring \<Rightarrow> jsval \<Rightarrow> js_error + (jsobj \<times> jsobj)" where
  "validateField field v =
     (case check_amount field v ([], []) of
        Inl e \<Rightarrow> Inl e
      | Inr ew1 \<Rightarrow>
          (case check_name field v ew1 of
             Inl e \<Rightarrow> Inl e
           | Inr ew2 \<Rightarrow> check_transaction_id field v ew2))"

subsection \<open>handleFieldEdit\<close>

text \<open>
  The only caller is the input's \<^verbatim>\<open>onChange\<close>, which passes \<^verbatim>\<open>e.target.value\<close>, a
  string. \<^verbatim>\<open>setEditedData\<close> is called before \<^verbatim>\<open>validateField\<close>, so if validation threw,
  the working copy alone would have changed; on a string it never throws
  (\<open>validateField_string_returns\<close> below).
\<close>

definition handleFieldEdit :: "jsstring \<Rightarrow> jsstring \<Rightarrow> modal_state \<Rightarrow> modal_state" where
  "handleFieldEdit field v s =
     (let newData = set_prop field (JStr v) (case editedData s of None \<Rightarrow> [] | Some d \<Rightarrow> d);
          s1 = s\<lparr>editedData := Some newData\<rparr>
      in case validateField field (JStr v) of
           Inl e \<Rightarrow> s1
         | Inr (errors, warns) \<Rightarrow>
             s1\<lparr>validationErrors := set_prop field (get errors field) (validationErrors s1),
                warnings := set_prop field (get warns field) (warnings s1)\<rparr>)"

subsection \<open>handleConfirm\<close>

text \<open>
  The \<^verbatim>\<open>forEach\<close> over \<^verbatim>\<open>Object.keys(editedData)\<close>, with \<^verbatim>\<open>allErrors\<close> and
  \<^verbatim>\<open>allWarnings\<close> as accumulators. An exception leaves the loop and the handler.
\<close>

fun validateAll :: "jsobj \<Rightarrow> jsstring list \<Rightarrow> jsobj \<times> jsobj \<Rightarrow> js_error + (jsobj \<times> jsobj)" where
  "validateAll d [] acc = Inr acc"
| "validateAll d (field # fs) (allErrors, allWarnings) =
     (if field \<noteq> js ''confidence'' then
        (case validateField field (get d field) of
           Inl e \<Rightarrow> Inl e
         | Inr (errors, warns) \<Rightarrow>
             validateAll d fs
               (if truthy (get errors field) then set_prop field (get errors field) allErrors
                else allErrors,
                if truthy (get warns field) then set_prop field (get warns field) allWarnings
                else allWarnings))
      else validateAll d fs (allErrors, allWarnings))"

text \<open>
  The result is the new state and, when \<^verbatim>\<open>onConfirm\<close> was called, its argument.
  \<^verbatim>\<open>Object.keys(null)\<close> throws.
\<close>

definition handleConfirm :: "modal_state \<Rightarrow> js_error + (modal_state \<times> jsobj option)" where
  "handleConfirm s =
     (case editedData s of
        None \<Rightarrow> Inl (TypeError NullOrUndefined)
      | Some d \<Rightarrow>
          (case validateAll d (keys d) ([], []) of
             Inl e \<Rightarrow> Inl e
           | Inr (allErrors, allWarnings) \<Rightarrow>
               Inr (s\<lparr>validationErrors := allErrors, warnings := allWarnings\<rparr>,
                    if length (keys allErrors) = 0 then Some d else None)))"

subsection \<open>What the validation of one field of a working copy says\<close>

text \<open>
  \<^verbatim>\<open>errors[field]\<close> and \<^verbatim>\<open>warns[field]\<close> of
  \<^verbatim>\<open>validateField(field, editedData[field])\<close>, the two expressions \<^verbatim>\<open>handleConfirm\<close>
  tests and copies: a message, or \<^verbatim>\<open>undefined\<close>.
\<close>

definition field_error :: "jsobj \<Rightarrow> jsstring \<Rightarrow> jsval" where
  "field_error d f =
     (case validateField f (get d f) of
        Inl e \<Rightarrow> JUndefined
      | Inr (errors, warns) \<Rightarrow> get errors f)"

definition field_warning :: "jsobj \<Rightarrow> jsstring \<Rightarrow> jsval" where
  "field_warning d f =
     (case validateField f (get d f) of
        Inl e \<Rightarrow> JUndefined
      | Inr (errors, warns) \<Rightarrow> get warns f)"

text \<open>Every property of the working copy but \<^verbatim>\<open>confidence\<close> validates without an error.\<close>

definition all_valid :: "jsobj \<Rightarrow> bool" where
  "all_valid d \<longleftrightarrow>
     list_all (\<lambda>f. f = js ''confidence'' \<or>
                 (case validateField f (get d f) of
                    Inl e \<Rightarrow> False
                  | Inr (errors, warns) \<Rightarrow> \<not> truthy (get errors f)))
       (keys d)"

text \<open>
  The fields as the extraction answer and the inputs give them: the amount a Number or
  a string, the two names and the transaction id strings, and \<^verbatim>\<open>null\<close> or nothing at all
  for what was not detected (the modal shows "Not detected" for it).
\<close>

fun is_text :: "jsval \<Rightarrow> bool" where
  "is_text (JStr s) = True"
| "is_text JNull = True"
| "is_text JUndefined = True"
| "is_text v = False"

fun is_amount :: "jsval \<Rightarrow> bool" where
  "is_amount (JNum n) = True"
| "is_amount v = is_text v"

definition transaction_typed :: "jsobj \<Rightarrow> bool" where
  "transaction_typed d \<longleftrightarrow>
     is_amount (get d (js ''amount'')) \<and> is_text (get d (js ''sender'')) \<and>
     is_text (get d (js ''receiver'')) \<and> is_text (get d (js ''transaction_id''))"

subsection \<open>The effect on a new extraction\<close>

text \<open>
  \<^verbatim>\<open>{ ...x }\<close> copies the own enumerable properties of \<open>x\<close>: those of an object, the
  indexed characters of a string, none of another primitive.
\<close>

fun decimal :: "nat \<Rightarrow> jsstring" where
  "decimal n = (if n < 10 then [of_nat (48 + n)] else decimal (n div 10) @ [of_nat (48 + n mod 10)])"

fun spread :: "jsval \<Rightarrow> jsobj" where
  "spread (JObj fs) = fs"
| "spread (JStr s) = map (\<lambda>i. (decimal i, JStr [s ! i])) [0..<length s]"
| "spread v = []"

text \<open>
  The body of \<^verbatim>\<open>useEffect(..., [extractedData])\<close>; React runs it after a render in
  which the \<^verbatim>\<open>extractedData\<close> prop is not the value of the render before.
\<close>

definition useEffect_extractedData :: "jsval \<Rightarrow> modal_state \<Rightarrow> modal_state" where
  "useEffect_extractedData x s =
     (if truthy x then
        s\<lparr>editedData := Some (spread x), validationErrors := [], warnings := [],
          editingField := None\<rparr>
      else s)"

section \<open>The remote calls\<close>

text \<open>
  What \<^verbatim>\<open>fetch\<close> comes back with: a rejection, or a response with its status and
  what \<^verbatim>\<open>res.json()\<close> gives (\<open>Inl m\<close> when the body is not JSON and the promise is
  rejected with message \<open>m\<close>).
\<close>

datatype http_outcome = NetworkFailure jsstring | HttpResponse nat "jsstring + jsval"

definition ok :: "nat \<Rightarrow> bool" where
  "ok st \<longleftrightarrow> 200 \<le> st \<and> st \<le> 299"

text \<open>
  What the engine defines and this code shows to the user: how a Number prints, and the
  text of a TypeError.
\<close>

record engine =
  number_toString :: "jsnum \<Rightarrow> jsstring"
  typeError_message :: "type_error \<Rightarrow> jsstring"

text \<open>
  \<^verbatim>\<open>x.k\<close> for the names read below (\<^verbatim>\<open>requires_password\<close>, \<^verbatim>\<open>success\<close>,
  \<^verbatim>\<open>extracted_data\<close>, \<^verbatim>\<open>status\<close>, \<^verbatim>\<open>detail\<close>), which no primitive carries.
\<close>

fun read_prop :: "jsval \<Rightarrow> jsstring \<Rightarrow> js_error + jsval" where
  "read_prop (JObj fs) k = Inr (get fs k)"
| "read_prop JNull k = Inl (TypeError NullOrUndefined)"
| "read_prop JUndefined k = Inl (TypeError NullOrUndefined)"
| "read_prop v k = Inr JUndefined"

fun ToString :: "engine \<Rightarrow> jsval \<Rightarrow> js_error + jsstring" where
  "ToString eng (JStr s) = Inr s"
| "ToString eng (JNum n) = Inr (number_toString eng n)"
| "ToString eng (JBool b) = Inr (if b then js ''true'' else js ''false'')"
| "ToString eng JNull = Inr (js ''null'')"
| "ToString eng JUndefined = Inr (js ''undefined'')"
| "ToString eng (JObj fs) =
     (if js ''toString'' \<in> set (keys fs) then Inl (TypeError NotPrimitive)
      else Inr (js ''[object Object]''))"

text \<open>\<^verbatim>\<open>error.message\<close> of a caught exception.\<close>

fun error_message :: "engine \<Rightarrow> js_error \<Rightarrow> jsstring" where
  "error_message eng (Error m) = m"
| "error_message eng (TypeError t) = typeError_message eng t"

text \<open>\<^verbatim>\<open>confirmTransaction\<close> and \<^verbatim>\<open>deleteTransactionAPI\<close> of \<^verbatim>\<open>lib/api.js\<close>, after their \<^verbatim>\<open>fetch\<close>.\<close>

definition confirmTransaction :: "engine \<Rightarrow> http_outcome \<Rightarrow> js_error + jsval" where
  "confirmTransaction eng outcome =
     (case outcome of
        NetworkFailure m \<Rightarrow> Inl (Error m)
      | HttpResponse st body \<Rightarrow>
          if st = 401 then Inl (Error (js ''Unauthorized''))
          else if \<not> ok st then
            (case body of
               Inl m \<Rightarrow> Inl (Error m)
             | Inr err \<Rightarrow>
                 (case read_prop err (js ''detail'') of
                    Inl e \<Rightarrow> Inl e
                  | Inr detail \<Rightarrow>
                      (case ToString eng
                              (if truthy detail then detail
                               else JStr (js ''Failed to save transaction'')) of
                         Inl e \<Rightarrow> Inl e
                       | Inr m \<Rightarrow> Inl (Error m))))
          else (case body of Inl m \<Rightarrow> Inl (Error m) | Inr v \<Rightarrow> Inr v))"

definition deleteTransactionAPI :: "http_outcome \<Rightarrow> js_error + jsval" where
  "deleteTransactionAPI outcome =
     (case outcome of
        NetworkFailure m \<Rightarrow> Inl (Error m)
      | HttpResponse st body \<Rightarrow>
          if st = 401 then Inl (Error (js ''Unauthorized''))
          else if \<not> ok st then Inl (Error (js ''Failed to delete expense''))
          else (case body of Inl m \<Rightarrow> Inl (Error m) | Inr v \<Rightarrow> Inr v))"

section \<open>UploadComponent\<close>

datatype upload_file = File jsstring

datatype upload_status = StatusIdle | StatusUploading | StatusSuccess | StatusError

text \<open>
  The component's \<^verbatim>\<open>useState\<close> cells. \<^verbatim>\<open>message\<close> is a value, not a string: the code
  stores \<^verbatim>\<open>data.status\<close> in it as it came.
\<close>

record upload_state =
  status :: upload_status
  password :: jsstring
  requiresPassword :: bool
  selectedFile :: "upload_file option"
  message :: jsval
  extractedData :: jsval
  showConfirmation :: bool
  isSaving :: bool

text \<open>
  Outside the component: the \<^verbatim>\<open>sb-token\<close> entry of \<^verbatim>\<open>localStorage\<close>, the access token of
  the Supabase session if there is one, and the calls made on the environment, oldest
  first.
\<close>

datatype request =
    Upload "upload_file option" "jsstring option" jsstring
  | Confirm jsobj jsstring
  | Delete jsval jsstring

datatype timer = ResetStatus | ClearMessage

datatype effect =
    Fetch request
  | RouterPush jsstring
  | RouterRefresh
  | Alert jsstring
  | FormReset
  | SetTimeout timer nat

record world =
  sb_token :: "jsstring option"
  session :: "jsstring option"
  effects :: "effect list"

definition emit :: "effect \<Rightarrow> world \<Rightarrow> world" where
  "emit x w = w\<lparr>effects := effects w @ [x]\<rparr>"

text \<open>The requests among the calls made, oldest first.\<close>

definition requests :: "world \<Rightarrow> request list" where
  "requests w = concat (map (\<lambda>x. case x of Fetch r \<Rightarrow> [r] | _ \<Rightarrow> []) (effects w))"

definition then_do :: "'e + 'a \<Rightarrow> ('a \<Rightarrow> 'e + 'b) \<Rightarrow> 'e + 'b" where
  "then_do r f = (case r of Inl e \<Rightarrow> Inl e | Inr x \<Rightarrow> f x)"

text \<open>\<^verbatim>\<open>s.includes(t)\<close> on strings, and on a value that passed a truthiness test.\<close>

fun str_includes :: "jsstring \<Rightarrow> jsstring \<Rightarrow> bool" where
  "str_includes [] t = (t = [])"
| "str_includes (c # s) t = (take (length t) (c # s) = t \<or> str_includes s t)"

fun call_includes :: "jsval \<Rightarrow> jsstring \<Rightarrow> js_error + bool" where
  "call_includes (JStr s) t = Inr (str_includes s t)"
| "call_includes v t = Inl (TypeError NotAFunction)"

definition handleFileChange :: "upload_file option \<Rightarrow> upload_state \<Rightarrow> upload_state" where
  "handleFileChange f s =
     s\<lparr>selectedFile := f, requiresPassword := False, password := [], message := JStr []\<rparr>"

text \<open>The callbacks given to \<^verbatim>\<open>setTimeout\<close>.\<close>

fun run_timer :: "timer \<Rightarrow> upload_state \<Rightarrow> upload_state" where
  "run_timer ResetStatus s = s\<lparr>status := StatusIdle, message := JStr []\<rparr>"
| "run_timer ClearMessage s = s\<lparr>message := JStr []\<rparr>"

subsection \<open>handleSubmit\<close>

text \<open>
  The \<^verbatim>\<open>try\<close> block from the answer of \<^verbatim>\<open>fetch\<close> on: the 401 test, then the chain of
  tests on the parsed body, in the source's order.
\<close>

definition on_upload_response :: "http_outcome \<Rightarrow> upload_state \<times> world \<Rightarrow> js_error + (upload_state \<times> world)" where
  "on_upload_response outcome sw =
     (case sw of (s, w) \<Rightarrow>
      case outcome of
        NetworkFailure m \<Rightarrow> Inl (Error m)
      | HttpResponse st body \<Rightarrow>
          if st = 401 then
            Inr (s, emit (RouterPush (js ''/login'')) (w\<lparr>sb_token := None\<rparr>))
          else
            then_do (case body of Inl m \<Rightarrow> Inl (Error m) | Inr v \<Rightarrow> Inr v) (\<lambda>data.
            then_do (read_prop data (js ''requires_password'')) (\<lambda>requires_password.
              if truthy requires_password then
                Inr (s\<lparr>requiresPassword := True, status := StatusIdle,
                       message := JStr ([0xD83D, 0xDD10] @
                         js '' This PDF requires a password. Please enter it below.'')\<rparr>, w)
              else
                then_do (read_prop data (js ''success'')) (\<lambda>success.
                then_do (if truthy success then read_prop data (js ''extracted_data'')
                         else Inr success) (\<lambda>has_extracted.
                  if truthy has_extracted then
                    then_do (read_prop data (js ''extracted_data'')) (\<lambda>extracted_data.
                      Inr (s\<lparr>extractedData := extracted_data, showConfirmation := True,
                             status := StatusIdle, message := JStr []\<rparr>,
                           emit FormReset w))
                  else
                    then_do (read_prop data (js ''status'')) (\<lambda>data_status.
                    then_do (if truthy success then Inr True
                             else if truthy data_status
                                  then call_includes data_status [0x2705]
                                  else Inr False) (\<lambda>succeeded.
                      if succeeded then
                        Inr (s\<lparr>status := StatusSuccess,
                               message := (if truthy data_status then data_status
                                           else JStr (0x2705 # js '' File processed successfully!'')),
                               requiresPassword := False, password := [],
                               selectedFile := None\<rparr>,
                             emit (SetTimeout ResetStatus 3000)
                               (emit RouterRefresh (emit FormReset w)))
                      else
                        Inr (s\<lparr>status := StatusError,
                               message := (if truthy data_status then data_status
                                           else JStr (0x274C # js '' Failed to process file''))\<rparr>,
                             w))))))))"

text \<open>
  The handler: the two \<^verbatim>\<open>set\<close> calls, the token test, the request, and the \<^verbatim>\<open>catch\<close>
  around what follows. \<^verbatim>\<open>!token\<close> holds for no entry and for the empty string.
\<close>

definition handleSubmit :: "http_outcome \<Rightarrow> upload_state \<times> world \<Rightarrow> upload_state \<times> world" where
  "handleSubmit outcome sw =
     (case sw of (s, w) \<Rightarrow>
      let s1 = s\<lparr>status := StatusUploading, message := JStr []\<rparr>
      in case sb_token w of
           None \<Rightarrow> (s1, emit (RouterPush (js ''/login'')) w)
         | Some token \<Rightarrow>
             if token = [] then (s1, emit (RouterPush (js ''/login'')) w)
             else
               (let w1 = emit (Fetch (Upload (selectedFile s)
                                 (if password s = [] then None else Some (password s)) token)) w
                in case on_upload_response outcome (s1, w1) of
                     Inr sw' \<Rightarrow> sw'
                   | Inl e \<Rightarrow>
                       (s1\<lparr>status := StatusError,
                           message := JStr (0x274C # js '' Error connecting to server'')\<rparr>, w1)))"

subsection \<open>handleConfirmTransaction and handleDiscardTransaction\<close>

text \<open>\<^verbatim>\<open>const { confidence, ...dataToSave } = confirmedData\<close>.\<close>

definition without_confidence :: "jsobj \<Rightarrow> jsobj" where
  "without_confidence d = filter (\<lambda>kv. fst kv \<noteq> js ''confidence'') d"

definition handleConfirmTransaction ::
  "engine \<Rightarrow> jsobj \<Rightarrow> http_outcome \<Rightarrow> upload_state \<times> world \<Rightarrow> upload_state \<times> world" where
  "handleConfirmTransaction eng confirmedData outcome sw =
     (case sw of (s, w) \<Rightarrow>
      case session w of
        None \<Rightarrow> (s, emit (Alert (js ''Please login first'')) w)
      | Some access_token \<Rightarrow>
          (let s1 = s\<lparr>isSaving := True, status := StatusUploading,
                       message := JStr (js ''Saving transaction...'')\<rparr>;
               dataToSave = without_confidence confirmedData;
               w1 = emit (Fetch (Confirm dataToSave access_token)) w
           in case confirmTransaction eng outcome of
                Inr result \<Rightarrow>
                  (s1\<lparr>showConfirmation := False, extractedData := JNull, isSaving := False,
                      status := StatusSuccess,
                      message := JStr (0x2705 # js '' Transaction saved successfully!'')\<rparr>,
                   emit (SetTimeout ResetStatus 3000) (emit RouterRefresh w1))
              | Inl e \<Rightarrow>
                  (s1\<lparr>isSaving := False, status := StatusError,
                      message := JStr (0x274C # js '' Failed to save: '' @
                        (if error_message eng e = [] then js ''Unknown error''
                         else error_message eng e))\<rparr>,
                   w1)))"

definition handleDiscardTransaction :: "upload_state \<times> world \<Rightarrow> upload_state \<times> world" where
  "handleDiscardTransaction sw =
     (case sw of (s, w) \<Rightarrow>
        (s\<lparr>showConfirmation := False, extractedData := JNull, status := StatusIdle,
           message := JStr (js ''Transaction discarded'')\<rparr>,
         emit (SetTimeout ClearMessage 2000) w))"

section \<open>DeleteButton\<close>

text \<open>\<open>confirmed\<close> is the answer to \<^verbatim>\<open>confirm("Are you sure?")\<close>.\<close>

definition handleDelete :: "bool \<Rightarrow> jsval \<Rightarrow> http_outcome \<Rightarrow> world \<Rightarrow> world" where
  "handleDelete confirmed ident outcome w =
     (if \<not> confirmed then w
      else
        (case session w of
           None \<Rightarrow> emit (Alert (js ''Please login first'')) w
         | Some access_token \<Rightarrow>
             (let w1 = emit (Fetch (Delete ident access_token)) w
              in case deleteTransactionAPI outcome of
                   Inr result \<Rightarrow> emit RouterRefresh w1
                 | Inl e \<Rightarrow> emit (Alert (js ''Failed to delete'')) w1)))"

section \<open>The modal inside the upload component\<close>

text \<open>
  \<^verbatim>\<open>UploadComponent\<close> renders the modal with \<^verbatim>\<open>isOpen = showConfirmation\<close>, its own
  \<^verbatim>\<open>extractedData\<close> and \<^verbatim>\<open>onConfirm = handleConfirmTransaction\<close>. A click on
  "Confirm & Save" runs \<^verbatim>\<open>handleConfirm\<close>, which may call \<^verbatim>\<open>onConfirm\<close>; after the parent
  has rendered again, the modal's effect runs if the prop has changed.
\<close>

record app =
  upload :: upload_state
  modal :: modal_state

definition confirm :: "engine \<Rightarrow> http_outcome \<Rightarrow> app \<times> world \<Rightarrow> js_error + (app \<times> world)" where
  "confirm eng outcome aw =
     (case aw of (a, w) \<Rightarrow>
      case handleConfirm (modal a) of
        Inl e \<Rightarrow> Inl e
      | Inr (m, call) \<Rightarrow>
          (case call of
             None \<Rightarrow> Inr (a\<lparr>modal := m\<rparr>, w)
           | Some confirmedData \<Rightarrow>
               (let uw = handleConfirmTransaction eng confirmedData outcome (upload a, w);
                    u = fst uw
                in Inr (\<lparr>upload = u,
                         modal = (if extractedData u \<noteq> extractedData (upload a)
                                  then useEffect_extractedData (extractedData u) m else m)\<rparr>,
                        snd uw))))"

text \<open>The modal is on screen: \<^verbatim>\<open>isOpen && extractedData && editedData\<close>.\<close>

definition reviewing :: "app \<Rightarrow> bool" where
  "reviewing a \<longleftrightarrow>
     showConfirmation (upload a) \<and> truthy (extractedData (upload a)) \<and> editedData (modal a) \<noteq> None"

section \<open>Facts about the model\<close>

subsection \<open>Rounding to a double\<close>

text \<open>
  \<open>ilog2\<close> finds the binade, and a rational that is a 53-bit integer times a power of two
  within the range of the doubles is its own Number value.
\<close>

lemma powi_nat: "0 \<le> n \<Longrightarrow> (2::rat) ^ nat n = 2 powi n"
  by (simp add: power_int_def)

lemma of_int_pow2_bounds:
  assumes "0 < a"
  shows "2 powi (bitlen a - 1) \<le> (of_int a :: rat)" and "(of_int a :: rat) < 2 powi (bitlen a)"
proof -
  have l1: "1 \<le> bitlen a"
    using assms bitlen_eq_zero_iff [of a] bitlen_nonneg [of a] by simp
  have "(2::int) ^ nat (bitlen a - 1) \<le> a" using bitlen_bounds [OF assms] by simp
  then have "(of_int ((2::int) ^ nat (bitlen a - 1)) :: rat) \<le> of_int a"
    by (simp only: of_int_le_iff)
  then show "2 powi (bitlen a - 1) \<le> (of_int a :: rat)"
    using l1 by (simp add: power_int_def)
  have "a < (2::int) ^ nat (bitlen a)" using bitlen_bounds [OF assms] by simp
  then have "(of_int a :: rat) < of_int ((2::int) ^ nat (bitlen a))"
    by (simp only: of_int_less_iff)
  then show "(of_int a :: rat) < 2 powi (bitlen a)"
    using l1 by (simp add: power_int_def)
qed

lemma ilog2_bounds:
  assumes "0 < x"
  shows "2 powi (ilog2 x) \<le> x \<and> x < 2 powi (ilog2 x + 1)"
proof -
  obtain a b where q: "quotient_of x = (a, b)" by (cases "quotient_of x")
  have b: "0 < b" using q by (rule quotient_of_denom_pos)
  have x: "x = of_int a / of_int b" using q by (rule quotient_of_div)
  have a: "0 < a" using assms b x by (simp add: zero_less_divide_iff)
  define la where "la = bitlen a"
  define lb where "lb = bitlen b"
  note ra = of_int_pow2_bounds [OF a, folded la_def]
  note rb = of_int_pow2_bounds [OF b, folded lb_def]
  have "x < 2 powi la / 2 powi (lb - 1)"
    unfolding x using a b ra rb by (intro frac_less) simp_all
  also have "\<dots> = 2 powi (la - lb + 1)"
    by (simp add: power_int_diff [symmetric] algebra_simps)
  finally have up: "x < 2 powi (la - lb + 1)" .
  have "2 powi (la - 1) / 2 powi lb < x"
    unfolding x using a b ra rb by (intro frac_less2) simp_all
  also have "2 powi (la - 1) / 2 powi lb = (2::rat) powi (la - lb - 1)"
    by (simp add: power_int_diff [symmetric] algebra_simps)
  finally have lo: "2 powi (la - lb - 1) < x" .
  show ?thesis
    using up lo by (simp add: ilog2_def q la_def lb_def Let_def not_le less_imp_le)
qed

lemma pow2_less_imp: "(2::rat) powi m < 2 powi n \<Longrightarrow> m < n"
proof (rule ccontr)
  assume a: "2 powi m < (2::rat) powi n" and "\<not> m < n"
  then have "n \<le> m" by simp
  then have "(2::rat) powi n \<le> 2 powi m" by (rule power_int_increasing) simp
  with a show False by simp
qed

lemma ilog2_unique:
  assumes "2 powi k \<le> x" "x < 2 powi (k + 1)"
  shows "ilog2 x = k"
proof -
  have "(0::rat) < 2 powi k" by simp
  then have x: "0 < x" using assms(1) by (rule less_le_trans)
  note b = ilog2_bounds [OF x]
  have "(2::rat) powi k < 2 powi (ilog2 x + 1)" using assms(1) b by simp
  then have 1: "k < ilog2 x + 1" by (rule pow2_less_imp)
  have "(2::rat) powi (ilog2 x) < 2 powi (k + 1)" using assms(2) b by simp
  then have 2: "ilog2 x < k + 1" by (rule pow2_less_imp)
  show ?thesis using 1 2 by simp
qed

lemma roundHalfEven_of_int: "roundHalfEven (of_int n) = n"
  by (simp add: roundHalfEven_def)

lemma number_value_exact:
  assumes n: "n \<noteq> 0" "\<bar>n\<bar> < 2 ^ 53" and j: "- 1074 \<le> j"
    and x: "x = of_int n * 2 powi j" and big: "\<bar>x\<bar> < 2 powi 1024"
  shows "number_value x = Fin x"
proof -
  define m where "m = \<bar>x\<bar>"
  have m: "m = of_int \<bar>n\<bar> * 2 powi j"
    by (simp add: m_def x abs_mult)
  have mpos: "0 < m" using n(1) by (simp add: m)
  have x0: "x \<noteq> 0" using mpos by (simp add: m_def)
  define e where "e = max (ilog2 m) (- 1022)"
  have "(of_int \<bar>n\<bar> :: rat) < of_int (2 ^ 53)" using n(2) by (simp only: of_int_less_iff)
  then have "m < 2 ^ 53 * 2 powi j" by (simp add: m)
  also have "\<dots> = 2 powi (j + 53)" by (simp add: power_int_add)
  finally have "m < 2 powi (j + 53)" .
  with ilog2_bounds [OF mpos] have "(2::rat) powi (ilog2 m) < 2 powi (j + 53)" by simp
  then have "ilog2 m < j + 53" by (rule pow2_less_imp)
  then have e: "e \<le> j + 52" using j by (simp add: e_def)
  define d where "d = nat (j + 52 - e)"
  have "(2::rat) powi j / 2 powi (e - 52) = 2 powi (j + 52 - e)"
    by (simp add: power_int_diff [symmetric] algebra_simps)
  also have "\<dots> = 2 ^ d" using e by (simp add: d_def power_int_def)
  finally have quot: "(2::rat) powi j / 2 powi (e - 52) = 2 ^ d" .
  have "m / 2 powi (e - 52) = of_int \<bar>n\<bar> * (2 powi j / 2 powi (e - 52))"
    by (simp add: m)
  also have "\<dots> = of_int (\<bar>n\<bar> * 2 ^ d)" by (simp add: quot)
  finally have "roundHalfEven (m / 2 powi (e - 52)) = \<bar>n\<bar> * 2 ^ d"
    by (simp only: roundHalfEven_of_int)
  then have "rat_of_int (roundHalfEven (m / 2 powi (e - 52))) * 2 powi (e - 52)
      = rat_of_int \<bar>n\<bar> * (2 ^ d * 2 powi (e - 52))" by simp
  also have "(2::rat) ^ d * 2 powi (e - 52) = 2 powi j"
    using quot by (simp add: field_simps)
  finally have r: "rat_of_int (roundHalfEven (m / 2 powi (e - 52))) * 2 powi (e - 52) = m"
    by (simp add: m)
  have nb: "\<not> 2 powi 1024 \<le> m" using big by (simp add: m_def)
  have sgn: "(if 0 < x then m else - m) = x" by (simp add: m_def)
  show ?thesis
    unfolding number_value_def Let_def
    using x0 r nb sgn by (simp only: m_def [symmetric] e_def [symmetric] if_False)
qed

lemma number_value_int:
  assumes "n \<noteq> 0" "\<bar>n\<bar> < 2 ^ 53"
  shows "number_value (of_int n) = Fin (of_int n)"
proof (rule number_value_exact [where n = n and j = 0])
  have "(of_int \<bar>n\<bar> :: rat) < of_int (2 ^ 53)" using assms(2) by (simp only: of_int_less_iff)
  also have "\<dots> \<le> 2 powi 1024" by simp
  finally show "\<bar>of_int n :: rat\<bar> < 2 powi 1024" by simp
qed (use assms in simp_all)

subsection \<open>String literals\<close>

lemma js_eq_iff [simp]: "js a = js b \<longleftrightarrow> a = b"
proof -
  have inj: "inj (\<lambda>c::char. (of_nat (of_char c) :: 16 word))"
  proof (rule injI)
    fix x y :: char
    assume h: "(of_nat (of_char x) :: 16 word) = of_nat (of_char y)"
    have "(of_char x :: nat) < 2 ^ LENGTH(16)" "(of_char y :: nat) < 2 ^ LENGTH(16)"
      using nat_of_char_less_256 [of x] nat_of_char_less_256 [of y] by (simp_all del: nat_of_char_less_256)
    then have "(of_char x :: nat) = of_char y"
      using h by (simp add: word_of_nat_eq_iff take_bit_nat_eq_self)
    then show "x = y" by simp
  qed
  show ?thesis unfolding js_def by (simp add: inj_map_eq_map [OF inj])
qed

lemma js_Nil [simp]: "js [] = []" by (simp add: js_def)
lemma js_eq_Nil [simp]: "js s = [] \<longleftrightarrow> s = []" by (simp add: js_def)
lemma length_js [simp]: "length (js s) = length s" by (simp add: js_def)

subsection \<open>Objects and the validation loop\<close>

lemma get_Nil [simp]: "get [] k = JUndefined"
  by (simp add: get_def)

lemma get_set_prop [simp]: "get (set_prop k v obj) f = (if f = k then v else get obj f)"
  by (simp add: get_def set_prop_def update_conv')

lemma set_prop_not_Nil [simp]: "set_prop k v obj \<noteq> []"
  by (cases obj) (simp_all add: set_prop_def)

lemma set_prop_idem [simp]: "set_prop k v (set_prop k v obj) = set_prop k v obj"
  by (induction obj) (simp_all add: set_prop_def)

lemma get_absent: "f \<notin> set (keys obj) \<Longrightarrow> get obj f = JUndefined"
  by (simp add: get_def keys_def map_of_eq_None_iff [THEN iffD2])

lemma get_Cons [simp]: "get ((k, v) # obj) f = (if f = k then v else get obj f)"
  by (simp add: get_def)

lemma validateField_shape:
  assumes "validateField f v = Inr (errors, warns)"
  shows "(errors = [] \<or> errors = [(f, get errors f)] \<and> truthy (get errors f)) \<and>
         (warns = [] \<or> warns = [(f, get warns f)] \<and> truthy (get warns f)) \<and>
         (errors = [] \<or> warns = [])"
  using assms
  by (auto simp: validateField_def check_amount_def check_name_def check_transaction_id_def
      set_prop_def split: if_splits sum.splits)

lemma field_error_falsy: "\<not> truthy (field_error d f) \<Longrightarrow> field_error d f = JUndefined"
  using validateField_shape [of f "get d f"]
  by (auto simp: field_error_def split: sum.splits)

lemma field_warning_falsy: "\<not> truthy (field_warning d f) \<Longrightarrow> field_warning d f = JUndefined"
  using validateField_shape [of f "get d f"]
  by (auto simp: field_warning_def split: sum.splits)

lemma validateAll_Inr:
  assumes "\<forall>f \<in> set fs. f \<noteq> js ''confidence'' \<longrightarrow> (\<exists>ew. validateField f (get d f) = Inr ew)"
  shows "\<exists>acc'. validateAll d fs acc = Inr acc'"
  using assms
proof (induction fs arbitrary: acc)
  case Nil
  show ?case by simp
next
  case (Cons field fs)
  obtain E W where acc: "acc = (E, W)" by (cases acc)
  show ?case
  proof (cases "field = js ''confidence''")
    case True
    then show ?thesis using Cons by (simp add: acc)
  next
    case False
    then obtain errors warns where v: "validateField field (get d field) = Inr (errors, warns)"
      using Cons.prems by auto
    show ?thesis using False v Cons by (simp add: acc)
  qed
qed

lemma validateAll_get:
  assumes "validateAll d fs (E, W) = Inr (E', W')"
  shows "get E' f = (if f \<in> set fs \<and> f \<noteq> js ''confidence'' \<and> truthy (field_error d f)
                     then field_error d f else get E f)"
    and "get W' f = (if f \<in> set fs \<and> f \<noteq> js ''confidence'' \<and> truthy (field_warning d f)
                     then field_warning d f else get W f)"
  using assms
proof (induction fs arbitrary: E W)
  case Nil
  { case 1 then show ?case by simp }
  { case 2 then show ?case by simp }
next
  case (Cons field fs)
  { case 1
    then show ?case using Cons.IH(1)
      by (auto simp: field_error_def split: if_splits sum.splits) }
  { case 2
    then show ?case using Cons.IH(2)
      by (auto simp: field_warning_def split: if_splits sum.splits) }
qed

lemma validateAll_errors_Nil:
  assumes "validateAll d fs (E, W) = Inr (E', W')"
  shows "E' = [] \<longleftrightarrow> E = [] \<and> (\<forall>f \<in> set fs. f \<noteq> js ''confidence'' \<longrightarrow> \<not> truthy (field_error d f))"
  using assms
proof (induction fs arbitrary: E W)
  case Nil
  then show ?case by simp
next
  case (Cons field fs)
  show ?case
  proof (cases "field = js ''confidence''")
    case True
    then have "validateAll d fs (E, W) = Inr (E', W')" using Cons.prems by simp
    from Cons.IH [OF this] show ?thesis using True by simp
  next
    case False
    then obtain errors warns where v: "validateField field (get d field) = Inr (errors, warns)"
      using Cons.prems by (auto split: sum.splits)
    define E1 where "E1 = (if truthy (get errors field) then set_prop field (get errors field) E else E)"
    define W1 where "W1 = (if truthy (get warns field) then set_prop field (get warns field) W else W)"
    have "validateAll d fs (E1, W1) = Inr (E', W')"
      using Cons.prems False v by (simp add: E1_def W1_def)
    from Cons.IH [OF this]
    have "E' = [] \<longleftrightarrow> E1 = [] \<and> (\<forall>f \<in> set fs. f \<noteq> js ''confidence'' \<longrightarrow> \<not> truthy (field_error d f))" .
    moreover have "E1 = [] \<longleftrightarrow> E = [] \<and> \<not> truthy (field_error d field)"
      by (simp add: E1_def field_error_def v)
    ultimately show ?thesis using False by auto
  qed
qed

subsection \<open>handleConfirm on a typed working copy\<close>

lemma keys_Nil_iff: "keys obj = [] \<longleftrightarrow> obj = []"
  by (simp add: keys_def)

lemma typed_validateField:
  assumes "transaction_typed d"
  shows "\<exists>ew. validateField f (get d f) = Inr ew"
proof -
  have a: "is_amount v \<Longrightarrow> \<exists>n. parseFloat v = Inr n" for v
    by (cases v) (auto split: option.splits)
  have t: "is_text v \<Longrightarrow> truthy v \<Longrightarrow> \<exists>t. call_trim v = Inr t" for v
    by (cases v) auto
  have ca: "\<exists>ew1. check_amount f (get d f) ew = Inr ew1" for ew
  proof (cases "f = js ''amount''")
    case True
    then obtain n where "parseFloat (get d f) = Inr n"
      using assms a [of "get d f"] by (auto simp: transaction_typed_def)
    then show ?thesis using True by (cases ew) (simp add: check_amount_def)
  next
    case False
    then show ?thesis by (cases ew) (simp add: check_amount_def)
  qed
  have cn: "\<exists>ew2. check_name f (get d f) ew = Inr ew2" for ew
  proof (cases "f = js ''sender'' \<or> f = js ''receiver''")
    case True
    then have "is_text (get d f)" using assms by (auto simp: transaction_typed_def)
    then have "\<not> truthy (get d f) \<or> (\<exists>t. call_trim (get d f) = Inr t)" using t by blast
    then show ?thesis using True by (cases ew) (auto simp: check_name_def)
  next
    case False
    then show ?thesis by (cases ew) (simp add: check_name_def)
  qed
  have ct: "\<exists>ew3. check_transaction_id f (get d f) ew = Inr ew3" for ew
  proof (cases "f = js ''transaction_id''")
    case True
    then have "is_text (get d f)" using assms by (auto simp: transaction_typed_def)
    then have "\<not> truthy (get d f) \<or> (\<exists>t. call_trim (get d f) = Inr t)" using t by blast
    then show ?thesis using True by (cases ew) (auto simp: check_transaction_id_def)
  next
    case False
    then show ?thesis by (cases ew) (simp add: check_transaction_id_def)
  qed
  obtain ew1 where 1: "check_amount f (get d f) ([], []) = Inr ew1" using ca by blast
  obtain ew2 where 2: "check_name f (get d f) ew1 = Inr ew2" using cn by blast
  obtain ew3 where 3: "check_transaction_id f (get d f) ew2 = Inr ew3" using ct by blast
  show ?thesis by (simp add: validateField_def 1 2 3)
qed

lemma handleConfirm_typed:
  assumes d: "editedData s = Some d" and ty: "transaction_typed d"
  shows "\<exists>E W. handleConfirm s =
           Inr (s\<lparr>validationErrors := E, warnings := W\<rparr>, if E = [] then Some d else None) \<and>
         (\<forall>f. get E f = (if f \<in> set (keys d) \<and> f \<noteq> js ''confidence'' then field_error d f else JUndefined)) \<and>
         (\<forall>f. get W f = (if f \<in> set (keys d) \<and> f \<noteq> js ''confidence'' then field_warning d f else JUndefined)) \<and>
         (E = [] \<longleftrightarrow> (\<forall>f \<in> set (keys d). f \<noteq> js ''confidence'' \<longrightarrow> \<not> truthy (field_error d f)))"
proof -
  obtain acc where "validateAll d (keys d) ([], []) = Inr acc"
    using validateAll_Inr [of "keys d" d "([], [])"] typed_validateField [OF ty] by blast
  then obtain E W where v: "validateAll d (keys d) ([], []) = Inr (E, W)" by (cases acc) simp
  have 1: "handleConfirm s = Inr (s\<lparr>validationErrors := E, warnings := W\<rparr>, if E = [] then Some d else None)"
    by (simp add: handleConfirm_def d v keys_Nil_iff)
  have 2: "get E f = (if f \<in> set (keys d) \<and> f \<noteq> js ''confidence'' then field_error d f else JUndefined)" for f
    using validateAll_get(1) [OF v, of f] field_error_falsy [of d f] by auto
  have 3: "get W f = (if f \<in> set (keys d) \<and> f \<noteq> js ''confidence'' then field_warning d f else JUndefined)" for f
    using validateAll_get(2) [OF v, of f] field_warning_falsy [of d f] by auto
  have 4: "E = [] \<longleftrightarrow> (\<forall>f \<in> set (keys d). f \<noteq> js ''confidence'' \<longrightarrow> \<not> truthy (field_error d f))"
    using validateAll_errors_Nil [OF v] by simp
  show ?thesis using 1 2 3 4 by blast
qed

lemma validateAll_Inr_conv:
  assumes "validateAll d fs acc = Inr acc'"
  shows "\<forall>f \<in> set fs. f \<noteq> js ''confidence'' \<longrightarrow> (\<exists>ew. validateField f (get d f) = Inr ew)"
  using assms
proof (induction fs arbitrary: acc)
  case Nil
  show ?case by simp
next
  case (Cons field fs)
  obtain E W where acc: "acc = (E, W)" by (cases acc)
  show ?case
  proof (cases "field = js ''confidence''")
    case True
    then have "validateAll d fs acc = Inr acc'" using Cons.prems by (simp add: acc)
    from Cons.IH [OF this] show ?thesis using True by simp
  next
    case False
    then obtain errors warns where v: "validateField field (get d field) = Inr (errors, warns)"
      using Cons.prems by (auto simp: acc split: sum.splits)
    then obtain acc1 where "validateAll d fs acc1 = Inr acc'"
      using Cons.prems False by (simp add: acc)
    from Cons.IH [OF this] show ?thesis using v by auto
  qed
qed

lemma all_valid_iff:
  "all_valid d \<longleftrightarrow>
     (\<forall>f \<in> set (keys d). f \<noteq> js ''confidence'' \<longrightarrow>
        (\<exists>ew. validateField f (get d f) = Inr ew) \<and> \<not> truthy (field_error d f))"
  by (auto simp: all_valid_def list_all_iff field_error_def split: sum.splits)

lemma handleConfirm_all_valid:
  assumes d: "editedData s = Some d"
  shows "(\<exists>s'. handleConfirm s = Inr (s', Some d)) \<longleftrightarrow> all_valid d"
proof
  assume "\<exists>s'. handleConfirm s = Inr (s', Some d)"
  then obtain s' where h: "handleConfirm s = Inr (s', Some d)" ..
  then obtain E W where v: "validateAll d (keys d) ([], []) = Inr (E, W)"
    by (auto simp: handleConfirm_def d split: sum.splits)
  have "E = []" using h v by (auto simp: handleConfirm_def d keys_Nil_iff split: if_splits)
  then have "\<forall>f \<in> set (keys d). f \<noteq> js ''confidence'' \<longrightarrow> \<not> truthy (field_error d f)"
    using validateAll_errors_Nil [OF v] by simp
  then show "all_valid d" using validateAll_Inr_conv [OF v] by (simp add: all_valid_iff)
next
  assume a: "all_valid d"
  then obtain acc where "validateAll d (keys d) ([], []) = Inr acc"
    using validateAll_Inr [of "keys d" d "([], [])"] by (auto simp: all_valid_iff)
  then obtain E W where v: "validateAll d (keys d) ([], []) = Inr (E, W)" by (cases acc) simp
  have "E = []" using validateAll_errors_Nil [OF v] a by (simp add: all_valid_iff)
  then show "\<exists>s'. handleConfirm s = Inr (s', Some d)"
    by (simp add: handleConfirm_def d v keys_Nil_iff)
qed

lemma editedData_handleFieldEdit:
  "editedData (handleFieldEdit f v s) =
     Some (set_prop f (JStr v) (case editedData s of None \<Rightarrow> [] | Some d \<Rightarrow> d))"
  by (simp add: handleFieldEdit_def Let_def split: sum.splits prod.splits)

lemma key_of_get: "get d f \<noteq> JUndefined \<Longrightarrow> f \<in> set (keys d)"
  using get_absent [of f d] by blast

subsection \<open>The validator on given values\<close>

lemma parseFloat_abc: "parseFloat (JStr (js ''abc'')) = Inr NaN"
proof -
  have "parsePrefix (trimStart (js ''abc'')) = None" by code_simp
  then show ?thesis by simp
qed

lemma parseFloat_99_50: "parseFloat (JStr (js ''99.50'')) = Inr (Fin (199 / 2))"
proof -
  have p: "parsePrefix (trimStart (js ''99.50'')) =
             Some (Decimal False (js ''99'') (js ''50'') None, [])"
    by code_simp
  have d: "digitsValue (js ''99'' @ js ''50'') = 9950" by (simp add: digitsValue_def js_def)
  have n: "number_value (199 / 2) = Fin (199 / 2)"
    by (rule number_value_exact [where n = 199 and j = "- 1"]) simp_all
  show ?thesis by (simp add: p d n)
qed

lemma parseFloat_250000: "parseFloat (JStr (js ''250000'')) = Inr (Fin 250000)"
proof -
  have p: "parsePrefix (trimStart (js ''250000'')) =
             Some (Decimal False (js ''250000'') [] None, [])"
    by code_simp
  have d: "digitsValue (js ''250000'') = 250000" by (simp add: digitsValue_def js_def)
  show ?thesis using number_value_int [of 250000] by (simp add: p d)
qed

lemma parseFloat_150000: "parseFloat (JStr (js ''150000'')) = Inr (Fin 150000)"
proof -
  have p: "parsePrefix (trimStart (js ''150000'')) =
             Some (Decimal False (js ''150000'') [] None, [])"
    by code_simp
  have d: "digitsValue (js ''150000'') = 150000" by (simp add: digitsValue_def js_def)
  show ?thesis using number_value_int [of 150000] by (simp add: p d)
qed

lemma parseFloat_minus_5: "parseFloat (JStr (js ''-5'')) = Inr (Fin (- 5))"
proof -
  have p: "parsePrefix (trimStart (js ''-5'')) = Some (Decimal True (js ''5'') [] None, [])"
    by code_simp
  have d: "digitsValue (js ''5'') = 5" by (simp add: digitsValue_def js_def)
  show ?thesis using number_value_int [of "- 5"] by (simp add: p d)
qed

lemma parseFloat_25: "parseFloat (JStr (js ''25'')) = Inr (Fin 25)"
proof -
  have p: "parsePrefix (trimStart (js ''25'')) = Some (Decimal False (js ''25'') [] None, [])"
    by code_simp
  have d: "digitsValue (js ''25'') = 25" by (simp add: digitsValue_def js_def)
  show ?thesis using number_value_int [of 25] by (simp add: p d)
qed

lemma parsePrefix_12abc:
  "parsePrefix (trimStart (js ''12abc'')) = Some (Decimal False (js ''12'') [] None, js ''abc'')"
  by code_simp

lemma value_12: "StringNumericValue (Decimal False (js ''12'') [] None) = Fin 12"
proof -
  have d: "digitsValue (js ''12'') = 12" by (simp add: digitsValue_def js_def)
  show ?thesis using number_value_int [of 12] by (simp add: d)
qed

lemma validateField_other:
  assumes "f \<noteq> js ''amount''" "f \<noteq> js ''sender''" "f \<noteq> js ''receiver''"
    "f \<noteq> js ''transaction_id''"
  shows "validateField f v = Inr ([], [])"
  using assms by (simp add: validateField_def check_amount_def check_name_def check_transaction_id_def)

lemma validateField_amount:
  assumes "parseFloat v = Inr n"
  shows "validateField (js ''amount'') v =
           (if isNaN n \<or> num_le n (Fin 0)
            then Inr ([(js ''amount'', JStr (js ''Amount must be a positive number''))], [])
            else if num_gt n (Fin 100000)
            then Inr ([], [(js ''amount'', JStr (js ''Large amount detected - please verify''))])
            else Inr ([], []))"
  using assms by (simp add: validateField_def check_amount_def check_name_def check_transaction_id_def set_prop_def del: parseFloat.simps)

lemma validateField_name:
  assumes "f = js ''sender'' \<or> f = js ''receiver''"
  shows "validateField f (JStr s) =
           (if length (trim s) < 2
            then Inr ([(f, JStr (js ''Name must be at least 2 characters''))], [])
            else Inr ([], []))"
  using assms by (auto simp: validateField_def check_amount_def check_name_def check_transaction_id_def set_prop_def trim_def)

lemma validateField_transaction_id:
  "validateField (js ''transaction_id'') (JStr s) =
     (if length (trim s) < 4
      then Inr ([(js ''transaction_id'', JStr (js ''Transaction ID must be at least 4 characters''))], [])
      else Inr ([], []))"
  by (auto simp: validateField_def check_amount_def check_name_def check_transaction_id_def set_prop_def trim_def)

lemma validateField_sample_names:
  "validateField (js ''sender'') (JStr (js ''Alice'')) = Inr ([], [])"
  "validateField (js ''sender'') (JStr (js ''Carol'')) = Inr ([], [])"
  "validateField (js ''receiver'') (JStr (js ''Bob'')) = Inr ([], [])"
  "validateField (js ''transaction_id'') (JStr (js ''TXN12345'')) = Inr ([], [])"
  "validateField (js ''sender'') (JStr (js ''A'')) =
     Inr ([(js ''sender'', JStr (js ''Name must be at least 2 characters''))], [])"
proof -
  have t: "length (trim (js ''Alice'')) = 5" "length (trim (js ''Carol'')) = 5"
    "length (trim (js ''Bob'')) = 3" "length (trim (js ''TXN12345'')) = 8"
    "length (trim (js ''A'')) = 1"
    by code_simp+
  show "validateField (js ''sender'') (JStr (js ''Alice'')) = Inr ([], [])"
    by (simp add: validateField_name t)
  show "validateField (js ''sender'') (JStr (js ''Carol'')) = Inr ([], [])"
    by (simp add: validateField_name t)
  show "validateField (js ''receiver'') (JStr (js ''Bob'')) = Inr ([], [])"
    by (simp add: validateField_name t)
  show "validateField (js ''transaction_id'') (JStr (js ''TXN12345'')) = Inr ([], [])"
    by (simp add: validateField_transaction_id t)
  show "validateField (js ''sender'') (JStr (js ''A'')) =
     Inr ([(js ''sender'', JStr (js ''Name must be at least 2 characters''))], [])"
    by (simp add: validateField_name t)
qed

lemma validateField_sample_amounts:
  "validateField (js ''amount'') (JStr (js ''-5'')) =
     Inr ([(js ''amount'', JStr (js ''Amount must be a positive number''))], [])"
  "validateField (js ''amount'') (JStr (js ''25'')) = Inr ([], [])"
  "validateField (js ''amount'') (JStr (js ''150000'')) =
     Inr ([], [(js ''amount'', JStr (js ''Large amount detected - please verify''))])"
  by (simp_all add: validateField_amount [OF parseFloat_minus_5]
      validateField_amount [OF parseFloat_25] validateField_amount [OF parseFloat_150000])

subsection \<open>Digits followed by anything\<close>

lemma digit_not_space: "isDigit c \<Longrightarrow> \<not> isWhiteSpace c"
proof -
  assume d: "isDigit c"
  have "\<not> (0x2000 \<le> c)"
  proof
    assume "0x2000 \<le> c"
    moreover have "c \<le> 0x39" using d by (simp add: isDigit_def)
    ultimately have "(0x2000 :: 16 word) \<le> 0x39" by (rule order_trans)
    then show False by simp
  qed
  then show ?thesis using d by (auto simp: isDigit_def isWhiteSpace_def)
qed

lemma digit_not_sign: "isDigit c \<Longrightarrow> c \<noteq> 0x2B \<and> c \<noteq> 0x2D \<and> c \<noteq> 0x49"
  by (auto simp: isDigit_def)

lemma take_Infinity: "take 8 (c # cs) = js ''Infinity'' \<Longrightarrow> c = 0x49"
  by (simp add: js_def)

lemma parsePrefix_digits:
  assumes ds: "ds \<noteq> []" "\<forall>c \<in> set ds. isDigit c"
    and rest: "rest = [] \<or> \<not> isDigit (hd rest) \<and> hd rest \<noteq> 0x2E \<and> hd rest \<noteq> 0x65 \<and> hd rest \<noteq> 0x45"
  shows "parsePrefix (trimStart (ds @ rest)) = Some (Decimal False ds [] None, rest)"
proof -
  obtain c cs where c: "ds = c # cs" using ds(1) by (cases ds) auto
  have dc: "isDigit c" using ds(2) c by simp
  have t: "trimStart (ds @ rest) = ds @ rest"
    using digit_not_space [OF dc] by (simp add: trimStart_def c)
  have inf: "take 8 (ds @ rest) \<noteq> js ''Infinity''"
    using take_Infinity [of c "cs @ rest"] digit_not_sign [OF dc] by (auto simp: c)
  have tw: "takeWhile isDigit rest = []" using rest by (cases rest) auto
  have dw: "dropWhile isDigit rest = rest" using rest by (cases rest) auto
  have ip: "takeWhile isDigit (ds @ rest) = ds" using ds(2) tw by (simp add: takeWhile_append2)
  have r1: "dropWhile isDigit (ds @ rest) = rest" using ds(2) dw by (simp add: dropWhile_append2)
  have u: "parseUnsigned False (ds @ rest) = Some (Decimal False ds [] None, rest)"
    unfolding parseUnsigned_def Let_def ip r1
    using inf ds(1) rest by (cases rest) (simp_all add: parseExponent_def)
  show ?thesis
    unfolding t using digit_not_sign [OF dc] u by (simp add: parsePrefix_def c)
qed

text \<open>
  An amount written as a whole number greater than 0 and at most 100000 is accepted
  whatever follows it, as long as what follows does not go on with the literal.
\<close>

lemma amount_digits_then_rest:
  assumes "ds \<noteq> []" and "\<forall>c \<in> set ds. isDigit c"
    and "rest = [] \<or> \<not> isDigit (hd rest) \<and> hd rest \<noteq> 0x2E \<and> hd rest \<noteq> 0x65 \<and> hd rest \<noteq> 0x45"
    and "0 < digitsValue ds" and "digitsValue ds \<le> 100000"
  shows "validateField (js ''amount'') (JStr (ds @ rest)) = Inr ([], [])"
proof -
  have n: "number_value (of_int (int (digitsValue ds))) = Fin (of_int (int (digitsValue ds)))"
    using assms(4,5) by (intro number_value_int) simp_all
  have "parseFloat (JStr (ds @ rest)) = Inr (Fin (of_nat (digitsValue ds)))"
    using parsePrefix_digits [OF assms(1-3)] n by simp
  from validateField_amount [OF this] show ?thesis using assms(4,5) by simp
qed

lemma validateField_string_returns: "\<exists>ew. validateField f (JStr v) = Inr ew"
  by (auto simp: validateField_def check_amount_def check_name_def check_transaction_id_def
      split: option.splits)

subsection \<open>From the click to the request\<close>

text \<open>
  With a session, the click on "Confirm & Save" sends the working copy, without its
  \<^verbatim>\<open>confidence\<close>, to \<^verbatim>\<open>/transactions/confirm\<close> when every field is valid, and reaches
  nothing outside the modal when one is not.
\<close>

lemma handleConfirm_call:
  assumes "handleConfirm s = Inr (m, Some x)"
  shows "editedData s = Some x"
  using assms by (auto simp: handleConfirm_def split: option.splits sum.splits if_splits)

lemma confirm_sends_when_valid:
  assumes "editedData (modal a) = Some d" and "session w = Some access_token"
    and "all_valid d"
  shows "\<exists>a' w' rest. confirm eng outcome (a, w) = Inr (a', w') \<and>
     effects w' = effects w @ Fetch (Confirm (without_confidence d) access_token) # rest"
proof -
  obtain m where h: "handleConfirm (modal a) = Inr (m, Some d)"
    using handleConfirm_all_valid [OF assms(1)] assms(3) by blast
  show ?thesis
    using assms(2)
    by (cases "confirmTransaction eng outcome")
       (simp_all add: confirm_def h handleConfirmTransaction_def emit_def Let_def)
qed

lemma confirm_silent_when_invalid:
  assumes "editedData (modal a) = Some d" and "\<not> all_valid d"
    and "confirm eng outcome (a, w) = Inr (a', w')"
  shows "w' = w \<and> upload a' = upload a"
proof -
  obtain m call where h: "handleConfirm (modal a) = Inr (m, call)"
    using assms(3) by (auto simp: confirm_def split: sum.splits)
  have "call = None"
  proof (cases call)
    case (Some x)
    then have "x = d" using handleConfirm_call [of "modal a" m x] h assms(1) by simp
    then show ?thesis using h Some handleConfirm_all_valid [OF assms(1)] assms(2) by blast
  qed simp
  then show ?thesis using assms(3) h by (auto simp: confirm_def)
qed

subsection \<open>The requests of a click on "Confirm & Save"\<close>

lemma requests_emit:
  "requests (emit x w) = requests w @ (case x of Fetch r \<Rightarrow> [r] | _ \<Rightarrow> [])"
  by (simp add: requests_def emit_def)

lemma useEffect_extractedData_JNull: "useEffect_extractedData JNull m = m"
  by (simp add: useEffect_extractedData_def)

text \<open>
  What \<^verbatim>\<open>handleConfirmTransaction\<close> adds to the requests: the one to
  \<^verbatim>\<open>/transactions/confirm\<close> with a session, none without; and its \<^verbatim>\<open>extractedData\<close> is the
  old one or \<^verbatim>\<open>null\<close>.
\<close>

lemma handleConfirmTransaction_requests:
  "requests (snd (handleConfirmTransaction eng x outcome (u, w))) =
     requests w @ (case session w of
                     None \<Rightarrow> []
                   | Some access_token \<Rightarrow> [Confirm (without_confidence x) access_token])"
  by (cases "session w"; cases "confirmTransaction eng outcome")
     (simp_all add: handleConfirmTransaction_def Let_def requests_emit)

lemma handleConfirmTransaction_extractedData:
  "extractedData (fst (handleConfirmTransaction eng x outcome (u, w))) = extractedData u \<or>
   extractedData (fst (handleConfirmTransaction eng x outcome (u, w))) = JNull"
  by (cases "session w"; cases "confirmTransaction eng outcome")
     (simp_all add: handleConfirmTransaction_def Let_def)

lemma confirm_result:
  assumes "handleConfirm (modal a) = Inr (m, call)"
  shows "\<exists>a' w'. confirm eng outcome (a, w) = Inr (a', w') \<and> modal a' = m \<and>
     requests w' = requests w @
       (case call of
          None \<Rightarrow> []
        | Some x \<Rightarrow>
            (case session w of
               None \<Rightarrow> []
             | Some access_token \<Rightarrow> [Confirm (without_confidence x) access_token]))"
proof (cases call)
  case None
  then show ?thesis using assms by (simp add: confirm_def)
next
  case (Some x)
  define uw where "uw = handleConfirmTransaction eng x outcome (upload a, w)"
  define a' where "a' = \<lparr>upload = fst uw,
      modal = (if extractedData (fst uw) \<noteq> extractedData (upload a)
               then useEffect_extractedData (extractedData (fst uw)) m else m)\<rparr>"
  have c: "confirm eng outcome (a, w) = Inr (a', snd uw)"
    using assms Some by (simp add: confirm_def Let_def uw_def a'_def)
  have m: "modal a' = m"
    using handleConfirmTransaction_extractedData [of eng x outcome "upload a" w]
    by (auto simp: a'_def uw_def useEffect_extractedData_JNull)
  have r: "requests (snd uw) = requests w @
      (case session w of
         None \<Rightarrow> []
       | Some access_token \<Rightarrow> [Confirm (without_confidence x) access_token])"
    unfolding uw_def by (rule handleConfirmTransaction_requests)
  show ?thesis using c m r Some by simp
qed

text \<open>
  With a session, the click sends the working copy if and only if every field of it is
  valid; this holds for every working copy, one that makes validation throw included.
\<close>

lemma confirm_sends_iff_all_valid:
  assumes "editedData (modal a) = Some d" and "session w = Some access_token"
  shows "(\<exists>a' w'. confirm eng outcome (a, w) = Inr (a', w') \<and>
            requests w' = requests w @ [Confirm (without_confidence d) access_token])
         \<longleftrightarrow> all_valid d"
proof
  assume "all_valid d"
  then obtain m where h: "handleConfirm (modal a) = Inr (m, Some d)"
    using handleConfirm_all_valid [OF assms(1)] by blast
  from confirm_result [OF h, of eng outcome w] assms(2)
  show "\<exists>a' w'. confirm eng outcome (a, w) = Inr (a', w') \<and>
            requests w' = requests w @ [Confirm (without_confidence d) access_token]"
    by auto
next
  assume "\<exists>a' w'. confirm eng outcome (a, w) = Inr (a', w') \<and>
            requests w' = requests w @ [Confirm (without_confidence d) access_token]"
  then obtain a' w' where c: "confirm eng outcome (a, w) = Inr (a', w')"
    and r: "requests w' = requests w @ [Confirm (without_confidence d) access_token]"
    by blast
  obtain m call where h: "handleConfirm (modal a) = Inr (m, call)"
    using c by (auto simp: confirm_def split: sum.splits)
  from confirm_result [OF h, of eng outcome w] c r
  have "call \<noteq> None" by (auto split: option.splits)
  then obtain x where x: "call = Some x" by auto
  then have "x = d" using handleConfirm_call [of "modal a" m x] h assms(1) by simp
  then show "all_valid d" using h x handleConfirm_all_valid [OF assms(1)] by blast
qed

lemma confirm_without_session:
  assumes "session w = None" and "confirm eng outcome (a, w) = Inr (a', w')"
  shows "requests w' = requests w"
proof -
  obtain m call where h: "handleConfirm (modal a) = Inr (m, call)"
    using assms(2) by (auto simp: confirm_def split: sum.splits)
  from confirm_result [OF h, of eng outcome w] assms show ?thesis
    by (auto split: option.splits)
qed

section \<open>The field validator\<close>

text \<open>
  C7. The validator on the spec's concrete cases: \<^verbatim>\<open>amount = "abc"\<close> gives the error
  "Amount must be a positive number"; \<^verbatim>\<open>amount = "99.50"\<close> gives no error and no warning;
  \<^verbatim>\<open>amount = "250000"\<close> gives only the warning "Large amount detected - please verify";
  \<^verbatim>\<open>sender = "A"\<close> gives "Name must be at least 2 characters";
  \<^verbatim>\<open>transaction_id = "123"\<close> gives "Transaction ID must be at least 4 characters" and
  \<^verbatim>\<open>"1234"\<close> gives nothing; \<^verbatim>\<open>date\<close>, \<^verbatim>\<open>time\<close> and \<^verbatim>\<open>category\<close> are valid for every value.
\<close>

theorem validateField_cases:
  "validateField (js ''amount'') (JStr (js ''abc'')) =
     Inr ([(js ''amount'', JStr (js ''Amount must be a positive number''))], []) \<and>
   validateField (js ''amount'') (JStr (js ''99.50'')) = Inr ([], []) \<and>
   validateField (js ''amount'') (JStr (js ''250000'')) =
     Inr ([], [(js ''amount'', JStr (js ''Large amount detected - please verify''))]) \<and>
   validateField (js ''sender'') (JStr (js ''A'')) =
     Inr ([(js ''sender'', JStr (js ''Name must be at least 2 characters''))], []) \<and>
   validateField (js ''transaction_id'') (JStr (js ''123'')) =
     Inr ([(js ''transaction_id'', JStr (js ''Transaction ID must be at least 4 characters''))], []) \<and>
   validateField (js ''transaction_id'') (JStr (js ''1234'')) = Inr ([], []) \<and>
   (\<forall>v. validateField (js ''date'') v = Inr ([], []) \<and>
        validateField (js ''time'') v = Inr ([], []) \<and>
        validateField (js ''category'') v = Inr ([], []))"
proof -
  have t1: "trim (js ''A'') = js ''A''" by code_simp
  have t2: "trim (js ''123'') = js ''123''" by code_simp
  have t3: "trim (js ''1234'') = js ''1234''" by code_simp
  have 1: "validateField (js ''amount'') (JStr (js ''abc'')) =
     Inr ([(js ''amount'', JStr (js ''Amount must be a positive number''))], [])"
    by (simp add: validateField_amount [OF parseFloat_abc])
  have 2: "validateField (js ''amount'') (JStr (js ''99.50'')) = Inr ([], [])"
    by (simp add: validateField_amount [OF parseFloat_99_50])
  have 3: "validateField (js ''amount'') (JStr (js ''250000'')) =
     Inr ([], [(js ''amount'', JStr (js ''Large amount detected - please verify''))])"
    by (simp add: validateField_amount [OF parseFloat_250000])
  have 4: "validateField (js ''sender'') (JStr (js ''A'')) =
     Inr ([(js ''sender'', JStr (js ''Name must be at least 2 characters''))], [])"
    by (simp add: validateField_name t1)
  have 5: "validateField (js ''transaction_id'') (JStr (js ''123'')) =
     Inr ([(js ''transaction_id'', JStr (js ''Transaction ID must be at least 4 characters''))], [])"
    by (simp add: validateField_transaction_id t2)
  have 6: "validateField (js ''transaction_id'') (JStr (js ''1234'')) = Inr ([], [])"
    by (simp add: validateField_transaction_id t3)
  have 7: "validateField (js ''date'') v = Inr ([], [])" for v
    by (simp add: validateField_other)
  have 8: "validateField (js ''time'') v = Inr ([], [])" for v
    by (simp add: validateField_other)
  have 9: "validateField (js ''category'') v = Inr ([], [])" for v
    by (simp add: validateField_other)
  show ?thesis using 1 2 3 4 5 6 7 8 9 by blast
qed

text \<open>
  C10. Only the leading numeric prefix of the amount is parsed: whenever the longest
  decimal literal that the string (after leading white space) starts with has a Number
  value greater than 0 and at most 100000, the validator gives neither an error nor a
  warning, whatever characters \<open>rest\<close> follow the literal.
\<close>

theorem amount_prefix_accepted:
  assumes "parsePrefix (trimStart s) = Some (lit, rest)"
    and "StringNumericValue lit = Fin v" and "0 < v" and "v \<le> 100000"
  shows "validateField (js ''amount'') (JStr s) = Inr ([], [])"
proof -
  have "parseFloat (JStr s) = Inr (Fin v)" using assms(1,2) by simp
  from validateField_amount [OF this] show ?thesis using assms(3,4) by simp
qed

text \<open>The claim's example, \<^verbatim>\<open>"12abc"\<close>: the literal is \<^verbatim>\<open>12\<close> and \<^verbatim>\<open>abc\<close> is ignored.\<close>

theorem amount_prefix_accepted_witness:
  "parsePrefix (trimStart (js ''12abc'')) = Some (Decimal False (js ''12'') [] None, js ''abc'') \<and>
   StringNumericValue (Decimal False (js ''12'') [] None) = Fin 12 \<and>
   (0::rat) < 12 \<and> (12::rat) \<le> 100000 \<and>
   validateField (js ''amount'') (JStr (js ''12abc'')) = Inr ([], [])"
  using amount_prefix_accepted [OF parsePrefix_12abc value_12] parsePrefix_12abc value_12
  by simp

section \<open>Editing a field\<close>

text \<open>
  C8. \<^verbatim>\<open>editField\<close> is idempotent: for every state, field and value, applying
  \<^verbatim>\<open>handleFieldEdit(field, value)\<close> twice gives the state that applying it once gives, the
  working copy and both message maps included.
\<close>

theorem handleFieldEdit_idempotent:
  "handleFieldEdit field v (handleFieldEdit field v s) = handleFieldEdit field v s"
  by (simp add: handleFieldEdit_def Let_def split: sum.splits prod.splits)

section \<open>Confirming\<close>

text \<open>
  C2. For every working copy with fields of the data model's types, \<^verbatim>\<open>handleConfirm\<close>
  returns, and the ValidationState it sets is the fresh validation of every property of
  the working copy except \<^verbatim>\<open>confidence\<close> (so of amount, sender, receiver, date, time,
  transaction_id and category): the entry of each such field is what \<^verbatim>\<open>validateField\<close>
  says of its current value, there is no other entry, the result is the same whatever
  the maps held before (stale results are dropped, both maps replaced), and \<^verbatim>\<open>onConfirm\<close>
  is called only with this fresh error map empty.
\<close>

theorem confirm_revalidates_every_field:
  assumes "editedData s = Some d" and "transaction_typed d"
  shows "\<exists>s' call. handleConfirm s = Inr (s', call) \<and>
     (\<forall>f \<in> set (keys d). f \<noteq> js ''confidence'' \<longrightarrow>
        get (validationErrors s') f = field_error d f \<and>
        get (warnings s') f = field_warning d f) \<and>
     (\<forall>f. f \<notin> set (keys d) \<or> f = js ''confidence'' \<longrightarrow>
        get (validationErrors s') f = JUndefined \<and> get (warnings s') f = JUndefined) \<and>
     (\<forall>e0 w0. handleConfirm (s\<lparr>validationErrors := e0, warnings := w0\<rparr>) = Inr (s', call)) \<and>
     (call \<noteq> None \<longrightarrow> validationErrors s' = [])"
proof -
  obtain acc where "validateAll d (keys d) ([], []) = Inr acc"
    using validateAll_Inr [of "keys d" d "([], [])"] typed_validateField [OF assms(2)] by blast
  then obtain E W where v: "validateAll d (keys d) ([], []) = Inr (E, W)" by (cases acc) simp
  define s' where "s' = s\<lparr>validationErrors := E, warnings := W\<rparr>"
  define call where "call = (if E = [] then Some d else None)"
  have h: "handleConfirm (s\<lparr>validationErrors := e0, warnings := w0\<rparr>) = Inr (s', call)" for e0 w0
    by (simp add: handleConfirm_def assms(1) v keys_Nil_iff s'_def call_def)
  have h0: "handleConfirm s = Inr (s', call)"
    by (simp add: handleConfirm_def assms(1) v keys_Nil_iff s'_def call_def)
  have e: "get (validationErrors s') f =
      (if f \<in> set (keys d) \<and> f \<noteq> js ''confidence'' then field_error d f else JUndefined)" for f
    using validateAll_get(1) [OF v, of f] field_error_falsy [of d f] by (auto simp: s'_def)
  have w: "get (warnings s') f =
      (if f \<in> set (keys d) \<and> f \<noteq> js ''confidence'' then field_warning d f else JUndefined)" for f
    using validateAll_get(2) [OF v, of f] field_warning_falsy [of d f] by (auto simp: s'_def)
  have c: "call \<noteq> None \<longrightarrow> validationErrors s' = []"
    by (simp add: call_def s'_def)
  show ?thesis
    using h0 h e w c by (intro exI [of _ s'] exI [of _ call] conjI) simp_all
qed

text \<open>
  A working copy with all seven fields and a stale entry for \<^verbatim>\<open>date\<close> in the error map:
  after \<^verbatim>\<open>handleConfirm\<close> the entry of \<^verbatim>\<open>date\<close> is the fresh one.
\<close>

theorem confirm_revalidates_every_field_witness:
  "transaction_typed
     [(js ''amount'', JNum (Fin 120)), (js ''sender'', JStr (js ''Alice'')),
      (js ''receiver'', JStr (js ''Bob'')), (js ''date'', JStr (js ''2024-01-15'')),
      (js ''time'', JStr (js ''10:30'')), (js ''transaction_id'', JStr (js ''TXN12345'')),
      (js ''category'', JStr (js ''Food'')),
      (js ''confidence'', JObj [(js ''amount'', JNum (Fin (1 / 2)))])] \<and>
   (\<exists>s' call.
      handleConfirm
        \<lparr>editedData = Some
           [(js ''amount'', JNum (Fin 120)), (js ''sender'', JStr (js ''Alice'')),
            (js ''receiver'', JStr (js ''Bob'')), (js ''date'', JStr (js ''2024-01-15'')),
            (js ''time'', JStr (js ''10:30'')), (js ''transaction_id'', JStr (js ''TXN12345'')),
            (js ''category'', JStr (js ''Food'')),
            (js ''confidence'', JObj [(js ''amount'', JNum (Fin (1 / 2)))])],
         editingField = None,
         validationErrors = [(js ''date'', JStr (js ''stale''))],
         warnings = []\<rparr> = Inr (s', call) \<and>
      get (validationErrors s') (js ''date'') = JUndefined \<and>
      get (validationErrors s') (js ''confidence'') = JUndefined)"
proof -
  let ?d = "[(js ''amount'', JNum (Fin 120)), (js ''sender'', JStr (js ''Alice'')),
      (js ''receiver'', JStr (js ''Bob'')), (js ''date'', JStr (js ''2024-01-15'')),
      (js ''time'', JStr (js ''10:30'')), (js ''transaction_id'', JStr (js ''TXN12345'')),
      (js ''category'', JStr (js ''Food'')),
      (js ''confidence'', JObj [(js ''amount'', JNum (Fin (1 / 2)))])]"
  let ?s = "\<lparr>editedData = Some ?d, editingField = None,
      validationErrors = [(js ''date'', JStr (js ''stale''))], warnings = []\<rparr>"
  have ty: "transaction_typed ?d" by (simp add: transaction_typed_def)
  have ed: "editedData ?s = Some ?d" by simp
  have k: "js ''date'' \<in> set (keys ?d)" by (simp add: keys_def)
  have fe: "field_error ?d (js ''date'') = JUndefined"
    by (simp add: field_error_def validateField_other)
  from confirm_revalidates_every_field [OF ed ty] obtain s' call
    where h: "handleConfirm ?s = Inr (s', call)"
      and e: "\<forall>f \<in> set (keys ?d). f \<noteq> js ''confidence'' \<longrightarrow>
        get (validationErrors s') f = field_error ?d f \<and>
        get (warnings s') f = field_warning ?d f"
      and n: "\<forall>f. f \<notin> set (keys ?d) \<or> f = js ''confidence'' \<longrightarrow>
        get (validationErrors s') f = JUndefined \<and> get (warnings s') f = JUndefined"
    by blast
  have "get (validationErrors s') (js ''date'') = JUndefined" using e k fe by simp
  moreover have "get (validationErrors s') (js ''confidence'') = JUndefined" using n by blast
  ultimately show ?thesis using ty h by blast
qed




text \<open>
  C5, as stated, at the amount set to \<^verbatim>\<open>"-5"\<close>, then the sender to \<^verbatim>\<open>"Carol"\<close>, then the
  amount to \<^verbatim>\<open>"25"\<close>, with no session: every field is valid at the click on
  "Confirm & Save", the error map is empty, and the only thing done is the alert
  "Please login first". No request is made.
\<close>

theorem fixed_field_without_session_counterexample:
  "confirm \<lparr>number_toString = (\<lambda>n. js ''0''), typeError_message = (\<lambda>t. js ''TypeError'')\<rparr>
     (HttpResponse 200 (Inr JNull))
     (\<lparr>upload =
    \<lparr>status = StatusIdle, password = [], requiresPassword = False, selectedFile = None,
     message = JStr [],
     extractedData = JObj
      [(js ''amount'', JNum (Fin 120)), (js ''sender'', JStr (js ''Alice'')),
      (js ''receiver'', JStr (js ''Bob'')), (js ''date'', JStr (js ''2024-01-15'')),
      (js ''time'', JStr (js ''10:30'')), (js ''transaction_id'', JStr (js ''TXN12345'')),
      (js ''category'', JStr (js ''Food'')),
      (js ''confidence'', JObj [(js ''amount'', JNum (Fin (1 / 2)))])],
     showConfirmation = True, isSaving = False\<rparr>,
   modal =
    handleFieldEdit (js ''amount'') (js ''25'')
      (handleFieldEdit (js ''sender'') (js ''Carol'')
        (handleFieldEdit (js ''amount'') (js ''-5'')
    \<lparr>editedData = Some
      [(js ''amount'', JNum (Fin 120)), (js ''sender'', JStr (js ''Alice'')),
      (js ''receiver'', JStr (js ''Bob'')), (js ''date'', JStr (js ''2024-01-15'')),
      (js ''time'', JStr (js ''10:30'')), (js ''transaction_id'', JStr (js ''TXN12345'')),
      (js ''category'', JStr (js ''Food'')),
      (js ''confidence'', JObj [(js ''amount'', JNum (Fin (1 / 2)))])],
     editingField = None, validationErrors = [],
     warnings = []\<rparr>))\<rparr>,
      \<lparr>sb_token = Some (js ''tok''), session = None, effects = []\<rparr>) =
   Inr (\<lparr>upload =
    \<lparr>status = StatusIdle, password = [], requiresPassword = False, selectedFile = None,
     message = JStr [],
     extractedData = JObj
      [(js ''amount'', JNum (Fin 120)), (js ''sender'', JStr (js ''Alice'')),
      (js ''receiver'', JStr (js ''Bob'')), (js ''date'', JStr (js ''2024-01-15'')),
      (js ''time'', JStr (js ''10:30'')), (js ''transaction_id'', JStr (js ''TXN12345'')),
      (js ''category'', JStr (js ''Food'')),
      (js ''confidence'', JObj [(js ''amount'', JNum (Fin (1 / 2)))])],
     showConfirmation = True, isSaving = False\<rparr>,
   modal =
    \<lparr>editedData = Some
      [(js ''amount'', JStr (js ''25'')), (js ''sender'', JStr (js ''Carol'')),
      (js ''receiver'', JStr (js ''Bob'')), (js ''date'', JStr (js ''2024-01-15'')),
      (js ''time'', JStr (js ''10:30'')), (js ''transaction_id'', JStr (js ''TXN12345'')),
      (js ''category'', JStr (js ''Food'')),
      (js ''confidence'', JObj [(js ''amount'', JNum (Fin (1 / 2)))])],
     editingField = None, validationErrors = [],
     warnings = []\<rparr>\<rparr>,
      \<lparr>sb_token = Some (js ''tok''), session = None, effects = [Alert (js ''Please login first'')]\<rparr>)"
proof -
  have e: "handleFieldEdit (js ''amount'') (js ''25'')
      (handleFieldEdit (js ''sender'') (js ''Carol'')
        (handleFieldEdit (js ''amount'') (js ''-5'')
    \<lparr>editedData = Some
      [(js ''amount'', JNum (Fin 120)), (js ''sender'', JStr (js ''Alice'')),
      (js ''receiver'', JStr (js ''Bob'')), (js ''date'', JStr (js ''2024-01-15'')),
      (js ''time'', JStr (js ''10:30'')), (js ''transaction_id'', JStr (js ''TXN12345'')),
      (js ''category'', JStr (js ''Food'')),
      (js ''confidence'', JObj [(js ''amount'', JNum (Fin (1 / 2)))])],
     editingField = None, validationErrors = [],
     warnings = []\<rparr>)) =
    \<lparr>editedData = Some
      [(js ''amount'', JStr (js ''25'')), (js ''sender'', JStr (js ''Carol'')),
      (js ''receiver'', JStr (js ''Bob'')), (js ''date'', JStr (js ''2024-01-15'')),
      (js ''time'', JStr (js ''10:30'')), (js ''transaction_id'', JStr (js ''TXN12345'')),
      (js ''category'', JStr (js ''Food'')),
      (js ''confidence'', JObj [(js ''amount'', JNum (Fin (1 / 2)))])],
     editingField = None,
     validationErrors = [(js ''amount'', JUndefined), (js ''sender'', JUndefined)],
     warnings = [(js ''amount'', JUndefined), (js ''sender'', JUndefined)]\<rparr>"
    by (simp add: handleFieldEdit_def set_prop_def validateField_sample_amounts validateField_sample_names validateField_other)
  show ?thesis
    unfolding e
    by (simp add: confirm_def handleConfirm_def keys_def handleConfirmTransaction_def emit_def
        validateField_sample_amounts validateField_sample_names validateField_other)
qed

text \<open>
  C5, amended. After an edit of field A to any value, an edit of field B and a second edit
  of field A, whatever the per-field results kept from those edits: with a session, the
  click on "Confirm & Save" makes the request to \<^verbatim>\<open>/transactions/confirm\<close> with the working
  copy (less \<^verbatim>\<open>confidence\<close>) if and only if every field of the working copy is then valid;
  without a session it makes no request.
\<close>

theorem request_after_fixing_field:
  "\<exists>d3. editedData (handleFieldEdit fieldA okA
                      (handleFieldEdit fieldB okB (handleFieldEdit fieldA bad (modal a)))) = Some d3 \<and>
     (\<forall>access_token. session w = Some access_token \<longrightarrow>
        ((\<exists>a' w'. confirm eng outcome
            (a\<lparr>modal := handleFieldEdit fieldA okA
                 (handleFieldEdit fieldB okB (handleFieldEdit fieldA bad (modal a)))\<rparr>, w) =
              Inr (a', w') \<and>
            requests w' = requests w @ [Confirm (without_confidence d3) access_token])
         \<longleftrightarrow> all_valid d3)) \<and>
     (session w = None \<longrightarrow>
        (\<forall>a' w'. confirm eng outcome
            (a\<lparr>modal := handleFieldEdit fieldA okA
                 (handleFieldEdit fieldB okB (handleFieldEdit fieldA bad (modal a)))\<rparr>, w) =
              Inr (a', w') \<longrightarrow>
            requests w' = requests w))"
proof -
  let ?s3 = "handleFieldEdit fieldA okA
      (handleFieldEdit fieldB okB (handleFieldEdit fieldA bad (modal a)))"
  obtain d3 where d: "editedData ?s3 = Some d3"
    by (simp add: editedData_handleFieldEdit)
  have d': "editedData (modal (a\<lparr>modal := ?s3\<rparr>)) = Some d3"
    using d by simp
  have 1: "(\<exists>a' w'. confirm eng outcome (a\<lparr>modal := ?s3\<rparr>, w) = Inr (a', w') \<and>
            requests w' = requests w @ [Confirm (without_confidence d3) access_token])
         \<longleftrightarrow> all_valid d3"
    if "session w = Some access_token" for access_token
    using d' that by (rule confirm_sends_iff_all_valid)
  have 2: "requests w' = requests w"
    if "session w = None" and "confirm eng outcome (a\<lparr>modal := ?s3\<rparr>, w) = Inr (a', w')"
    for a' w'
    using that by (rule confirm_without_session)
  show ?thesis
  proof (intro exI [of _ d3] conjI allI impI)
    show "editedData ?s3 = Some d3" by (rule d)
    show "(\<exists>a' w'. confirm eng outcome (a\<lparr>modal := ?s3\<rparr>, w) = Inr (a', w') \<and>
            requests w' = requests w @ [Confirm (without_confidence d3) access_token])
         \<longleftrightarrow> all_valid d3"
      if "session w = Some access_token" for access_token
      using that by (rule 1)
    show "requests w' = requests w"
      if "session w = None" and "confirm eng outcome (a\<lparr>modal := ?s3\<rparr>, w) = Inr (a', w')"
      for a' w'
      using that by (rule 2)
  qed
qed

text \<open>
  With a session: the amount is set to \<^verbatim>\<open>"-5"\<close>, which leaves an error in the map, then the
  sender to \<^verbatim>\<open>"Carol"\<close>, then the amount to \<^verbatim>\<open>"25"\<close>; every field is valid and the request
  is made.
\<close>

theorem request_after_fixing_field_witness:
  "get (validationErrors (handleFieldEdit (js ''amount'') (js ''-5'')
    \<lparr>editedData = Some
      [(js ''amount'', JNum (Fin 120)), (js ''sender'', JStr (js ''Alice'')),
      (js ''receiver'', JStr (js ''Bob'')), (js ''date'', JStr (js ''2024-01-15'')),
      (js ''time'', JStr (js ''10:30'')), (js ''transaction_id'', JStr (js ''TXN12345'')),
      (js ''category'', JStr (js ''Food'')),
      (js ''confidence'', JObj [(js ''amount'', JNum (Fin (1 / 2)))])],
     editingField = None, validationErrors = [],
     warnings = []\<rparr>)) (js ''amount'') =
     JStr (js ''Amount must be a positive number'') \<and>
   all_valid
     [(js ''amount'', JStr (js ''25'')), (js ''sender'', JStr (js ''Carol'')),
      (js ''receiver'', JStr (js ''Bob'')), (js ''date'', JStr (js ''2024-01-15'')),
      (js ''time'', JStr (js ''10:30'')), (js ''transaction_id'', JStr (js ''TXN12345'')),
      (js ''category'', JStr (js ''Food'')),
      (js ''confidence'', JObj [(js ''amount'', JNum (Fin (1 / 2)))])] \<and>
   (\<forall>eng outcome. \<exists>a' w'.
      confirm eng outcome
        (\<lparr>upload =
    \<lparr>status = StatusIdle, password = [], requiresPassword = False, selectedFile = None,
     message = JStr [],
     extractedData = JObj
      [(js ''amount'', JNum (Fin 120)), (js ''sender'', JStr (js ''Alice'')),
      (js ''receiver'', JStr (js ''Bob'')), (js ''date'', JStr (js ''2024-01-15'')),
      (js ''time'', JStr (js ''10:30'')), (js ''transaction_id'', JStr (js ''TXN12345'')),
      (js ''category'', JStr (js ''Food'')),
      (js ''confidence'', JObj [(js ''amount'', JNum (Fin (1 / 2)))])],
     showConfirmation = True, isSaving = False\<rparr>,
   modal =
    handleFieldEdit (js ''amount'') (js ''25'')
      (handleFieldEdit (js ''sender'') (js ''Carol'')
        (handleFieldEdit (js ''amount'') (js ''-5'')
    \<lparr>editedData = Some
      [(js ''amount'', JNum (Fin 120)), (js ''sender'', JStr (js ''Alice'')),
      (js ''receiver'', JStr (js ''Bob'')), (js ''date'', JStr (js ''2024-01-15'')),
      (js ''time'', JStr (js ''10:30'')), (js ''transaction_id'', JStr (js ''TXN12345'')),
      (js ''category'', JStr (js ''Food'')),
      (js ''confidence'', JObj [(js ''amount'', JNum (Fin (1 / 2)))])],
     editingField = None, validationErrors = [],
     warnings = []\<rparr>))\<rparr>,
         \<lparr>sb_token = Some (js ''tok''), session = Some (js ''tok''), effects = []\<rparr>) = Inr (a', w') \<and>
      requests w' =
        [Confirm (without_confidence
          [(js ''amount'', JStr (js ''25'')), (js ''sender'', JStr (js ''Carol'')),
      (js ''receiver'', JStr (js ''Bob'')), (js ''date'', JStr (js ''2024-01-15'')),
      (js ''time'', JStr (js ''10:30'')), (js ''transaction_id'', JStr (js ''TXN12345'')),
      (js ''category'', JStr (js ''Food'')),
      (js ''confidence'', JObj [(js ''amount'', JNum (Fin (1 / 2)))])]) (js ''tok'')])"
proof -
  let ?m = "\<lparr>editedData = Some
      [(js ''amount'', JNum (Fin 120)), (js ''sender'', JStr (js ''Alice'')),
      (js ''receiver'', JStr (js ''Bob'')), (js ''date'', JStr (js ''2024-01-15'')),
      (js ''time'', JStr (js ''10:30'')), (js ''transaction_id'', JStr (js ''TXN12345'')),
      (js ''category'', JStr (js ''Food'')),
      (js ''confidence'', JObj [(js ''amount'', JNum (Fin (1 / 2)))])],
     editingField = None, validationErrors = [],
     warnings = []\<rparr>"
  let ?u = "\<lparr>status = StatusIdle, password = [], requiresPassword = False, selectedFile = None,
     message = JStr [],
     extractedData = JObj
      [(js ''amount'', JNum (Fin 120)), (js ''sender'', JStr (js ''Alice'')),
      (js ''receiver'', JStr (js ''Bob'')), (js ''date'', JStr (js ''2024-01-15'')),
      (js ''time'', JStr (js ''10:30'')), (js ''transaction_id'', JStr (js ''TXN12345'')),
      (js ''category'', JStr (js ''Food'')),
      (js ''confidence'', JObj [(js ''amount'', JNum (Fin (1 / 2)))])],
     showConfirmation = True, isSaving = False\<rparr>"
  let ?d3 = "[(js ''amount'', JStr (js ''25'')), (js ''sender'', JStr (js ''Carol'')),
      (js ''receiver'', JStr (js ''Bob'')), (js ''date'', JStr (js ''2024-01-15'')),
      (js ''time'', JStr (js ''10:30'')), (js ''transaction_id'', JStr (js ''TXN12345'')),
      (js ''category'', JStr (js ''Food'')),
      (js ''confidence'', JObj [(js ''amount'', JNum (Fin (1 / 2)))])]"
  let ?a = "\<lparr>upload = ?u, modal = ?m\<rparr>"
  let ?w = "\<lparr>sb_token = Some (js ''tok''), session = Some (js ''tok''), effects = []\<rparr>"
  let ?s3 = "handleFieldEdit (js ''amount'') (js ''25'')
      (handleFieldEdit (js ''sender'') (js ''Carol'')
        (handleFieldEdit (js ''amount'') (js ''-5'') ?m))"
  have stale: "get (validationErrors (handleFieldEdit (js ''amount'') (js ''-5'') ?m))
      (js ''amount'') = JStr (js ''Amount must be a positive number'')"
    by (simp add: handleFieldEdit_def validateField_sample_amounts)
  have d: "editedData ?s3 = Some ?d3"
    by (simp add: editedData_handleFieldEdit set_prop_def)
  have v: "all_valid ?d3"
    by (simp add: all_valid_def keys_def validateField_sample_amounts validateField_sample_names validateField_other)
  have se: "session ?w = Some (js ''tok'')" by simp
  have rq: "requests ?w = []" by (simp add: requests_def)
  have am: "?a\<lparr>modal := ?s3\<rparr> = \<lparr>upload = ?u, modal = ?s3\<rparr>" by simp
  have ma: "modal ?a = ?m" by simp
  have 1: "\<exists>a' w'. confirm eng outcome (\<lparr>upload = ?u, modal = ?s3\<rparr>, ?w) = Inr (a', w') \<and>
      requests w' = [Confirm (without_confidence ?d3) (js ''tok'')]" for eng outcome
  proof -
    from request_after_fixing_field
      [of "js ''amount''" "js ''25''" "js ''sender''" "js ''Carol''" "js ''-5''" ?a ?w eng outcome]
    obtain d3 where d3: "editedData ?s3 = Some d3"
      and s: "\<forall>access_token. session ?w = Some access_token \<longrightarrow>
        ((\<exists>a' w'. confirm eng outcome (?a\<lparr>modal := ?s3\<rparr>, ?w) = Inr (a', w') \<and>
            requests w' = requests ?w @ [Confirm (without_confidence d3) access_token])
         \<longleftrightarrow> all_valid d3)"
      unfolding ma by blast
    have eq: "d3 = ?d3" using d3 d by simp
    from s se have "(\<exists>a' w'. confirm eng outcome (?a\<lparr>modal := ?s3\<rparr>, ?w) = Inr (a', w') \<and>
            requests w' = requests ?w @ [Confirm (without_confidence d3) (js ''tok'')])
         \<longleftrightarrow> all_valid d3"
      by blast
    then show ?thesis using v unfolding eq am rq by simp
  qed
  from stale v 1 show ?thesis by blast
qed

text \<open>
  C6, as stated, at two clicks on "Confirm & Save" with the amount \<^verbatim>\<open>"150000"\<close>. With a
  session and the sender \<^verbatim>\<open>"A"\<close>: the warning is set, \<^verbatim>\<open>errors.amount\<close> is not, the sender's
  error keeps \<^verbatim>\<open>onConfirm\<close> from being called, and nothing is done. With every other field
  in order and no session: the warning is set, the error map is empty, and the only thing
  done is the alert "Please login first". No request is made in either.
\<close>

theorem large_amount_request_counterexample:
  "confirm \<lparr>number_toString = (\<lambda>n. js ''0''), typeError_message = (\<lambda>t. js ''TypeError'')\<rparr>
     (HttpResponse 200 (Inr JNull))
     (\<lparr>upload =
    \<lparr>status = StatusIdle, password = [], requiresPassword = False, selectedFile = None,
     message = JStr [],
     extractedData = JObj
      [(js ''amount'', JNum (Fin 120)), (js ''sender'', JStr (js ''Alice'')),
      (js ''receiver'', JStr (js ''Bob'')), (js ''date'', JStr (js ''2024-01-15'')),
      (js ''time'', JStr (js ''10:30'')), (js ''transaction_id'', JStr (js ''TXN12345'')),
      (js ''category'', JStr (js ''Food'')),
      (js ''confidence'', JObj [(js ''amount'', JNum (Fin (1 / 2)))])],
     showConfirmation = True, isSaving = False\<rparr>,
   modal =
    \<lparr>editedData = Some
      [(js ''amount'', JStr (js ''150000'')), (js ''sender'', JStr (js ''A'')),
      (js ''receiver'', JStr (js ''Bob'')), (js ''date'', JStr (js ''2024-01-15'')),
      (js ''time'', JStr (js ''10:30'')), (js ''transaction_id'', JStr (js ''TXN12345'')),
      (js ''category'', JStr (js ''Food'')),
      (js ''confidence'', JObj [(js ''amount'', JNum (Fin (1 / 2)))])],
     editingField = None, validationErrors = [],
     warnings = []\<rparr>\<rparr>,
      \<lparr>sb_token = Some (js ''tok''), session = Some (js ''tok''), effects = []\<rparr>) =
   Inr (\<lparr>upload =
    \<lparr>status = StatusIdle, password = [], requiresPassword = False, selectedFile = None,
     message = JStr [],
     extractedData = JObj
      [(js ''amount'', JNum (Fin 120)), (js ''sender'', JStr (js ''Alice'')),
      (js ''receiver'', JStr (js ''Bob'')), (js ''date'', JStr (js ''2024-01-15'')),
      (js ''time'', JStr (js ''10:30'')), (js ''transaction_id'', JStr (js ''TXN12345'')),
      (js ''category'', JStr (js ''Food'')),
      (js ''confidence'', JObj [(js ''amount'', JNum (Fin (1 / 2)))])],
     showConfirmation = True, isSaving = False\<rparr>,
   modal =
    \<lparr>editedData = Some
      [(js ''amount'', JStr (js ''150000'')), (js ''sender'', JStr (js ''A'')),
      (js ''receiver'', JStr (js ''Bob'')), (js ''date'', JStr (js ''2024-01-15'')),
      (js ''time'', JStr (js ''10:30'')), (js ''transaction_id'', JStr (js ''TXN12345'')),
      (js ''category'', JStr (js ''Food'')),
      (js ''confidence'', JObj [(js ''amount'', JNum (Fin (1 / 2)))])],
     editingField = None, validationErrors = [(js ''sender'', JStr (js ''Name must be at least 2 characters''))],
     warnings = [(js ''amount'', JStr (js ''Large amount detected - please verify''))]\<rparr>\<rparr>,
      \<lparr>sb_token = Some (js ''tok''), session = Some (js ''tok''), effects = []\<rparr>) \<and>
   confirm \<lparr>number_toString = (\<lambda>n. js ''0''), typeError_message = (\<lambda>t. js ''TypeError'')\<rparr>
     (HttpResponse 200 (Inr JNull))
     (\<lparr>upload =
    \<lparr>status = StatusIdle, password = [], requiresPassword = False, selectedFile = None,
     message = JStr [],
     extractedData = JObj
      [(js ''amount'', JNum (Fin 120)), (js ''sender'', JStr (js ''Alice'')),
      (js ''receiver'', JStr (js ''Bob'')), (js ''date'', JStr (js ''2024-01-15'')),
      (js ''time'', JStr (js ''10:30'')), (js ''transaction_id'', JStr (js ''TXN12345'')),
      (js ''category'', JStr (js ''Food'')),
      (js ''confidence'', JObj [(js ''amount'', JNum (Fin (1 / 2)))])],
     showConfirmation = True, isSaving = False\<rparr>,
   modal =
    \<lparr>editedData = Some
      [(js ''amount'', JStr (js ''150000'')), (js ''sender'', JStr (js ''Alice'')),
      (js ''receiver'', JStr (js ''Bob'')), (js ''date'', JStr (js ''2024-01-15'')),
      (js ''time'', JStr (js ''10:30'')), (js ''transaction_id'', JStr (js ''TXN12345'')),
      (js ''category'', JStr (js ''Food'')),
      (js ''confidence'', JObj [(js ''amount'', JNum (Fin (1 / 2)))])],
     editingField = None, validationErrors = [],
     warnings = []\<rparr>\<rparr>,
      \<lparr>sb_token = Some (js ''tok''), session = None, effects = []\<rparr>) =
   Inr (\<lparr>upload =
    \<lparr>status = StatusIdle, password = [], requiresPassword = False, selectedFile = None,
     message = JStr [],
     extractedData = JObj
      [(js ''amount'', JNum (Fin 120)), (js ''sender'', JStr (js ''Alice'')),
      (js ''receiver'', JStr (js ''Bob'')), (js ''date'', JStr (js ''2024-01-15'')),
      (js ''time'', JStr (js ''10:30'')), (js ''transaction_id'', JStr (js ''TXN12345'')),
      (js ''category'', JStr (js ''Food'')),
      (js ''confidence'', JObj [(js ''amount'', JNum (Fin (1 / 2)))])],
     showConfirmation = True, isSaving = False\<rparr>,
   modal =
    \<lparr>editedData = Some
      [(js ''amount'', JStr (js ''150000'')), (js ''sender'', JStr (js ''Alice'')),
      (js ''receiver'', JStr (js ''Bob'')), (js ''date'', JStr (js ''2024-01-15'')),
      (js ''time'', JStr (js ''10:30'')), (js ''transaction_id'', JStr (js ''TXN12345'')),
      (js ''category'', JStr (js ''Food'')),
      (js ''confidence'', JObj [(js ''amount'', JNum (Fin (1 / 2)))])],
     editingField = None, validationErrors = [],
     warnings = [(js ''amount'', JStr (js ''Large amount detected - please verify''))]\<rparr>\<rparr>,
      \<lparr>sb_token = Some (js ''tok''), session = None, effects = [Alert (js ''Please login first'')]\<rparr>)"
  by (simp add: confirm_def handleConfirm_def keys_def set_prop_def handleConfirmTransaction_def
      emit_def validateField_sample_amounts validateField_sample_names validateField_other)

text \<open>
  C6, amended. For every working copy with fields of the data model's types whose amount
  is \<^verbatim>\<open>"150000"\<close>, a click on "Confirm & Save" returns, sets \<^verbatim>\<open>warnings.amount\<close> and leaves
  \<^verbatim>\<open>errors.amount\<close> unset; with a session it makes the request to
  \<^verbatim>\<open>/transactions/confirm\<close> (the working copy without \<^verbatim>\<open>confidence\<close>) if and only if none of
  the other fields has an error, and that is the only request made; without a session it
  makes no request. The warning does not block.
\<close>

theorem large_amount_warns_and_requests:
  assumes "editedData (modal a) = Some d" and "transaction_typed d"
    and "get d (js ''amount'') = JStr (js ''150000'')"
  shows "\<exists>a' w'. confirm eng outcome (a, w) = Inr (a', w') \<and>
     get (warnings (modal a')) (js ''amount'') =
       JStr (js ''Large amount detected - please verify'') \<and>
     get (validationErrors (modal a')) (js ''amount'') = JUndefined \<and>
     requests w' = requests w @
       (case session w of
          None \<Rightarrow> []
        | Some access_token \<Rightarrow>
            if (\<forall>f \<in> set (keys d). f \<noteq> js ''confidence'' \<longrightarrow> f \<noteq> js ''amount'' \<longrightarrow>
                  \<not> truthy (field_error d f))
            then [Confirm (without_confidence d) access_token] else [])"
proof -
  obtain E W where h: "handleConfirm (modal a) =
      Inr ((modal a)\<lparr>validationErrors := E, warnings := W\<rparr>, if E = [] then Some d else None)"
    and e: "\<And>f. get E f =
      (if f \<in> set (keys d) \<and> f \<noteq> js ''confidence'' then field_error d f else JUndefined)"
    and wn: "\<And>f. get W f =
      (if f \<in> set (keys d) \<and> f \<noteq> js ''confidence'' then field_warning d f else JUndefined)"
    and n: "E = [] \<longleftrightarrow>
      (\<forall>f \<in> set (keys d). f \<noteq> js ''confidence'' \<longrightarrow> \<not> truthy (field_error d f))"
    using handleConfirm_typed [OF assms(1,2)] by blast
  obtain a' w' where c: "confirm eng outcome (a, w) = Inr (a', w')"
    and m: "modal a' = (modal a)\<lparr>validationErrors := E, warnings := W\<rparr>"
    and r: "requests w' = requests w @
       (case (if E = [] then Some d else None) of
          None \<Rightarrow> []
        | Some x \<Rightarrow>
            (case session w of
               None \<Rightarrow> []
             | Some access_token \<Rightarrow> [Confirm (without_confidence x) access_token]))"
    using confirm_result [OF h, of eng outcome w] by blast
  have k: "js ''amount'' \<in> set (keys d)" using assms(3) by (intro key_of_get) simp
  have fe: "field_error d (js ''amount'') = JUndefined"
    by (simp add: field_error_def assms(3) validateField_sample_amounts)
  have fw: "field_warning d (js ''amount'') = JStr (js ''Large amount detected - please verify'')"
    by (simp add: field_warning_def assms(3) validateField_sample_amounts)
  have 1: "get (warnings (modal a')) (js ''amount'') =
      JStr (js ''Large amount detected - please verify'')"
    using wn [of "js ''amount''"] k fw by (simp add: m)
  have 2: "get (validationErrors (modal a')) (js ''amount'') = JUndefined"
    using e [of "js ''amount''"] fe by (simp add: m)
  have na: "\<not> truthy (field_error d (js ''amount''))" by (simp add: fe)
  define others where "others \<longleftrightarrow>
      (\<forall>f \<in> set (keys d). f \<noteq> js ''confidence'' \<longrightarrow> f \<noteq> js ''amount'' \<longrightarrow>
         \<not> truthy (field_error d f))"
  have 3: "E = [] \<longleftrightarrow> others"
    unfolding n others_def using na by blast
  have "requests w' = requests w @
       (case session w of
          None \<Rightarrow> []
        | Some access_token \<Rightarrow>
            if others then [Confirm (without_confidence d) access_token] else [])"
    unfolding r 3 by (cases "session w") simp_all
  then have 4: "requests w' = requests w @
       (case session w of
          None \<Rightarrow> []
        | Some access_token \<Rightarrow>
            if (\<forall>f \<in> set (keys d). f \<noteq> js ''confidence'' \<longrightarrow> f \<noteq> js ''amount'' \<longrightarrow>
                  \<not> truthy (field_error d f))
            then [Confirm (without_confidence d) access_token] else [])"
    unfolding others_def .
  show ?thesis
  proof (intro exI conjI)
    show "confirm eng outcome (a, w) = Inr (a', w')" by (rule c)
    show "get (warnings (modal a')) (js ''amount'') =
      JStr (js ''Large amount detected - please verify'')" by (rule 1)
    show "get (validationErrors (modal a')) (js ''amount'') = JUndefined" by (rule 2)
    show "requests w' = requests w @
       (case session w of
          None \<Rightarrow> []
        | Some access_token \<Rightarrow>
            if (\<forall>f \<in> set (keys d). f \<noteq> js ''confidence'' \<longrightarrow> f \<noteq> js ''amount'' \<longrightarrow>
                  \<not> truthy (field_error d f))
            then [Confirm (without_confidence d) access_token] else [])" by (rule 4)
  qed
qed

text \<open>
  With a session, the amount \<^verbatim>\<open>"150000"\<close> and every other field in order: the warning is
  set and the request is made.
\<close>

theorem large_amount_warns_and_requests_witness:
  "transaction_typed
     [(js ''amount'', JStr (js ''150000'')), (js ''sender'', JStr (js ''Alice'')),
      (js ''receiver'', JStr (js ''Bob'')), (js ''date'', JStr (js ''2024-01-15'')),
      (js ''time'', JStr (js ''10:30'')), (js ''transaction_id'', JStr (js ''TXN12345'')),
      (js ''category'', JStr (js ''Food'')),
      (js ''confidence'', JObj [(js ''amount'', JNum (Fin (1 / 2)))])] \<and>
   (\<forall>eng outcome. \<exists>a' w'.
      confirm eng outcome
        (\<lparr>upload =
    \<lparr>status = StatusIdle, password = [], requiresPassword = False, selectedFile = None,
     message = JStr [],
     extractedData = JObj
      [(js ''amount'', JNum (Fin 120)), (js ''sender'', JStr (js ''Alice'')),
      (js ''receiver'', JStr (js ''Bob'')), (js ''date'', JStr (js ''2024-01-15'')),
      (js ''time'', JStr (js ''10:30'')), (js ''transaction_id'', JStr (js ''TXN12345'')),
      (js ''category'', JStr (js ''Food'')),
      (js ''confidence'', JObj [(js ''amount'', JNum (Fin (1 / 2)))])],
     showConfirmation = True, isSaving = False\<rparr>,
   modal =
    \<lparr>editedData = Some
      [(js ''amount'', JStr (js ''150000'')), (js ''sender'', JStr (js ''Alice'')),
      (js ''receiver'', JStr (js ''Bob'')), (js ''date'', JStr (js ''2024-01-15'')),
      (js ''time'', JStr (js ''10:30'')), (js ''transaction_id'', JStr (js ''TXN12345'')),
      (js ''category'', JStr (js ''Food'')),
      (js ''confidence'', JObj [(js ''amount'', JNum (Fin (1 / 2)))])],
     editingField = None, validationErrors = [],
     warnings = []\<rparr>\<rparr>,
         \<lparr>sb_token = Some (js ''tok''), session = Some (js ''tok''), effects = []\<rparr>) = Inr (a', w') \<and>
      get (warnings (modal a')) (js ''amount'') =
        JStr (js ''Large amount detected - please verify'') \<and>
      get (validationErrors (modal a')) (js ''amount'') = JUndefined \<and>
      requests w' =
        [Confirm (without_confidence
          [(js ''amount'', JStr (js ''150000'')), (js ''sender'', JStr (js ''Alice'')),
      (js ''receiver'', JStr (js ''Bob'')), (js ''date'', JStr (js ''2024-01-15'')),
      (js ''time'', JStr (js ''10:30'')), (js ''transaction_id'', JStr (js ''TXN12345'')),
      (js ''category'', JStr (js ''Food'')),
      (js ''confidence'', JObj [(js ''amount'', JNum (Fin (1 / 2)))])]) (js ''tok'')])"
proof -
  let ?d = "[(js ''amount'', JStr (js ''150000'')), (js ''sender'', JStr (js ''Alice'')),
      (js ''receiver'', JStr (js ''Bob'')), (js ''date'', JStr (js ''2024-01-15'')),
      (js ''time'', JStr (js ''10:30'')), (js ''transaction_id'', JStr (js ''TXN12345'')),
      (js ''category'', JStr (js ''Food'')),
      (js ''confidence'', JObj [(js ''amount'', JNum (Fin (1 / 2)))])]"
  let ?a = "\<lparr>upload =
    \<lparr>status = StatusIdle, password = [], requiresPassword = False, selectedFile = None,
     message = JStr [],
     extractedData = JObj
      [(js ''amount'', JNum (Fin 120)), (js ''sender'', JStr (js ''Alice'')),
      (js ''receiver'', JStr (js ''Bob'')), (js ''date'', JStr (js ''2024-01-15'')),
      (js ''time'', JStr (js ''10:30'')), (js ''transaction_id'', JStr (js ''TXN12345'')),
      (js ''category'', JStr (js ''Food'')),
      (js ''confidence'', JObj [(js ''amount'', JNum (Fin (1 / 2)))])],
     showConfirmation = True, isSaving = False\<rparr>,
   modal =
    \<lparr>editedData = Some
      [(js ''amount'', JStr (js ''150000'')), (js ''sender'', JStr (js ''Alice'')),
      (js ''receiver'', JStr (js ''Bob'')), (js ''date'', JStr (js ''2024-01-15'')),
      (js ''time'', JStr (js ''10:30'')), (js ''transaction_id'', JStr (js ''TXN12345'')),
      (js ''category'', JStr (js ''Food'')),
      (js ''confidence'', JObj [(js ''amount'', JNum (Fin (1 / 2)))])],
     editingField = None, validationErrors = [],
     warnings = []\<rparr>\<rparr>"
  let ?w = "\<lparr>sb_token = Some (js ''tok''), session = Some (js ''tok''), effects = []\<rparr>"
  have ty: "transaction_typed ?d" by (simp add: transaction_typed_def)
  have ed: "editedData (modal ?a) = Some ?d" by simp
  have am: "get ?d (js ''amount'') = JStr (js ''150000'')" by simp
  have se: "session ?w = Some (js ''tok'')" by simp
  have rq: "requests ?w = []" by (simp add: requests_def)
  have others: "\<forall>f \<in> set (keys ?d). f \<noteq> js ''confidence'' \<longrightarrow> f \<noteq> js ''amount'' \<longrightarrow>
      \<not> truthy (field_error ?d f)"
    by (simp add: keys_def field_error_def validateField_sample_names validateField_other)
  have 1: "\<exists>a' w'. confirm eng outcome (?a, ?w) = Inr (a', w') \<and>
      get (warnings (modal a')) (js ''amount'') =
        JStr (js ''Large amount detected - please verify'') \<and>
      get (validationErrors (modal a')) (js ''amount'') = JUndefined \<and>
      requests w' = [Confirm (without_confidence ?d) (js ''tok'')]" for eng outcome
  proof -
    from large_amount_warns_and_requests [OF ed ty am, of eng outcome ?w] obtain a' w'
      where c: "confirm eng outcome (?a, ?w) = Inr (a', w')"
        and wn: "get (warnings (modal a')) (js ''amount'') =
          JStr (js ''Large amount detected - please verify'')"
        and er: "get (validationErrors (modal a')) (js ''amount'') = JUndefined"
        and r: "requests w' = requests ?w @
          (case session ?w of
             None \<Rightarrow> []
           | Some access_token \<Rightarrow>
               if (\<forall>f \<in> set (keys ?d). f \<noteq> js ''confidence'' \<longrightarrow> f \<noteq> js ''amount'' \<longrightarrow>
                     \<not> truthy (field_error ?d f))
               then [Confirm (without_confidence ?d) access_token] else [])"
      by blast
    have "requests w' = [Confirm (without_confidence ?d) (js ''tok'')]"
      unfolding r rq se using others by simp
    with c wn er show ?thesis by blast
  qed
  from ty 1 show ?thesis by blast
qed

section \<open>The upload answer\<close>

text \<open>
  C3. With a token stored and an answer other than 401 whose body is an object,
  \<^verbatim>\<open>handleSubmit\<close> classifies the body in a fixed order. A truthy \<^verbatim>\<open>requires_password\<close>
  comes first and asks for the password (the prompt flag set, status back to idle, the
  password message), whatever else the body holds. Otherwise a truthy \<^verbatim>\<open>success\<close> with a
  truthy \<^verbatim>\<open>extracted_data\<close> opens the confirmation with that data. Otherwise a truthy
  \<^verbatim>\<open>success\<close>, or a \<^verbatim>\<open>status\<close> string that holds the check mark U+2705, is a success.
  Anything else is an error.
\<close>

theorem upload_response_priority:
  assumes "sb_token w = Some token" and "token \<noteq> []" and "st \<noteq> 401"
  shows
    "(truthy (get fs (js ''requires_password'')) \<longrightarrow>
        handleSubmit (HttpResponse st (Inr (JObj fs))) (s, w) =
          (s\<lparr>status := StatusIdle,
             message := JStr ([0xD83D, 0xDD10] @
               js '' This PDF requires a password. Please enter it below.''),
             requiresPassword := True\<rparr>,
           emit (Fetch (Upload (selectedFile s)
                   (if password s = [] then None else Some (password s)) token)) w)) \<and>
     (\<not> truthy (get fs (js ''requires_password'')) \<and> truthy (get fs (js ''success'')) \<and>
      truthy (get fs (js ''extracted_data'')) \<longrightarrow>
        handleSubmit (HttpResponse st (Inr (JObj fs))) (s, w) =
          (s\<lparr>status := StatusIdle, message := JStr [],
             extractedData := get fs (js ''extracted_data''), showConfirmation := True\<rparr>,
           emit FormReset
             (emit (Fetch (Upload (selectedFile s)
                     (if password s = [] then None else Some (password s)) token)) w))) \<and>
     (\<not> truthy (get fs (js ''requires_password'')) \<and>
      \<not> (truthy (get fs (js ''success'')) \<and> truthy (get fs (js ''extracted_data''))) \<and>
      (truthy (get fs (js ''success'')) \<or>
       (\<exists>t. get fs (js ''status'') = JStr t \<and> str_includes t [0x2705])) \<longrightarrow>
        handleSubmit (HttpResponse st (Inr (JObj fs))) (s, w) =
          (s\<lparr>status := StatusSuccess,
             message := (if truthy (get fs (js ''status'')) then get fs (js ''status'')
                         else JStr (0x2705 # js '' File processed successfully!'')),
             requiresPassword := False, password := [], selectedFile := None\<rparr>,
           emit (SetTimeout ResetStatus 3000)
             (emit RouterRefresh
               (emit FormReset
                 (emit (Fetch (Upload (selectedFile s)
                         (if password s = [] then None else Some (password s)) token)) w))))) \<and>
     (\<not> truthy (get fs (js ''requires_password'')) \<and> \<not> truthy (get fs (js ''success'')) \<and>
      \<not> (\<exists>t. get fs (js ''status'') = JStr t \<and> str_includes t [0x2705]) \<longrightarrow>
        status (fst (handleSubmit (HttpResponse st (Inr (JObj fs))) (s, w))) = StatusError \<and>
        showConfirmation (fst (handleSubmit (HttpResponse st (Inr (JObj fs))) (s, w))) =
          showConfirmation s \<and>
        snd (handleSubmit (HttpResponse st (Inr (JObj fs))) (s, w)) =
          emit (Fetch (Upload (selectedFile s)
                  (if password s = [] then None else Some (password s)) token)) w)"
proof -
  let ?rp = "get fs (js ''requires_password'')"
  let ?succ = "get fs (js ''success'')"
  let ?ext = "get fs (js ''extracted_data'')"
  let ?stat = "get fs (js ''status'')"
  let ?w1 = "emit (Fetch (Upload (selectedFile s)
                  (if password s = [] then None else Some (password s)) token)) w"
  let ?s1 = "s\<lparr>status := StatusUploading, message := JStr []\<rparr>"
  have hs: "handleSubmit (HttpResponse st (Inr (JObj fs))) (s, w) =
      (case on_upload_response (HttpResponse st (Inr (JObj fs))) (?s1, ?w1) of
         Inr sw' \<Rightarrow> sw'
       | Inl e \<Rightarrow> (?s1\<lparr>status := StatusError,
                       message := JStr (0x274C # js '' Error connecting to server'')\<rparr>, ?w1))"
    using assms(1,2) by (simp add: handleSubmit_def Let_def)
  have inc: "call_includes ?stat [0x2705] = Inr True"
    if "get fs (js ''status'') = JStr t" "str_includes t [0x2705]" for t
    using that by simp
  have tr: "truthy ?stat" if "get fs (js ''status'') = JStr t" "str_includes t [0x2705]" for t
    using that by (cases t) auto
  have c1: "handleSubmit (HttpResponse st (Inr (JObj fs))) (s, w) =
          (s\<lparr>status := StatusIdle,
             message := JStr ([0xD83D, 0xDD10] @
               js '' This PDF requires a password. Please enter it below.''),
             requiresPassword := True\<rparr>, ?w1)"
    if "truthy ?rp"
    using that assms(3) by (simp add: hs on_upload_response_def then_do_def)
  have c2: "handleSubmit (HttpResponse st (Inr (JObj fs))) (s, w) =
          (s\<lparr>status := StatusIdle, message := JStr [],
             extractedData := ?ext, showConfirmation := True\<rparr>, emit FormReset ?w1)"
    if "\<not> truthy ?rp \<and> truthy ?succ \<and> truthy ?ext"
    using that assms(3) by (simp add: hs on_upload_response_def then_do_def)
  have c3: "handleSubmit (HttpResponse st (Inr (JObj fs))) (s, w) =
          (s\<lparr>status := StatusSuccess,
             message := (if truthy ?stat then ?stat
                         else JStr (0x2705 # js '' File processed successfully!'')),
             requiresPassword := False, password := [], selectedFile := None\<rparr>,
           emit (SetTimeout ResetStatus 3000) (emit RouterRefresh (emit FormReset ?w1)))"
    if a: "\<not> truthy ?rp \<and> \<not> (truthy ?succ \<and> truthy ?ext) \<and>
      (truthy ?succ \<or> (\<exists>t. ?stat = JStr t \<and> str_includes t [0x2705]))"
  proof (cases "truthy ?succ")
    case True
    then show ?thesis using a assms(3)
      by (simp add: hs on_upload_response_def then_do_def)
  next
    case False
    then obtain t where t: "?stat = JStr t" "str_includes t [0x2705]" using a by blast
    show ?thesis using False a assms(3) inc [OF t] tr [OF t]
      by (simp add: hs on_upload_response_def then_do_def)
  qed
  have c4: "status (fst (handleSubmit (HttpResponse st (Inr (JObj fs))) (s, w))) = StatusError \<and>
        showConfirmation (fst (handleSubmit (HttpResponse st (Inr (JObj fs))) (s, w))) =
          showConfirmation s \<and>
        snd (handleSubmit (HttpResponse st (Inr (JObj fs))) (s, w)) = ?w1"
    if a: "\<not> truthy ?rp \<and> \<not> truthy ?succ \<and>
      \<not> (\<exists>t. ?stat = JStr t \<and> str_includes t [0x2705])"
  proof -
    have "call_includes ?stat [0x2705] \<noteq> Inr True"
      using a by (cases ?stat) auto
    then have "call_includes ?stat [0x2705] = Inr False \<or>
               (\<exists>e. call_includes ?stat [0x2705] = Inl e)"
      by (cases "call_includes ?stat [0x2705]") auto
    then show ?thesis
      using a assms(3) by (auto simp: hs on_upload_response_def then_do_def)
  qed
  from c1 c2 c3 c4 show ?thesis by blast
qed

text \<open>
  Four answers, one for each class. The first holds \<^verbatim>\<open>requires_password\<close> together with
  \<^verbatim>\<open>success\<close>, \<^verbatim>\<open>extracted_data\<close> and a \<^verbatim>\<open>status\<close> with the check mark, and still asks
  for the password.
\<close>

theorem upload_response_priority_witness:
  "status (fst (handleSubmit
      (HttpResponse 200 (Inr (JObj
        [(js ''requires_password'', JBool True), (js ''success'', JBool True),
         (js ''extracted_data'', JObj [(js ''amount'', JNum (Fin 120))]),
         (js ''status'', JStr (0x2705 # js '' done''))])))
      (\<lparr>status = StatusIdle, password = [], requiresPassword = False,
          selectedFile = Some (File (js ''statement.pdf'')), message = JStr [],
          extractedData = JNull, showConfirmation = False, isSaving = False\<rparr>,
       \<lparr>sb_token = Some (js ''tok''), session = Some (js ''tok''), effects = []\<rparr>))) = StatusIdle \<and>
   requiresPassword (fst (handleSubmit
      (HttpResponse 200 (Inr (JObj
        [(js ''requires_password'', JBool True), (js ''success'', JBool True),
         (js ''extracted_data'', JObj [(js ''amount'', JNum (Fin 120))]),
         (js ''status'', JStr (0x2705 # js '' done''))])))
      (\<lparr>status = StatusIdle, password = [], requiresPassword = False,
          selectedFile = Some (File (js ''statement.pdf'')), message = JStr [],
          extractedData = JNull, showConfirmation = False, isSaving = False\<rparr>,
       \<lparr>sb_token = Some (js ''tok''), session = Some (js ''tok''), effects = []\<rparr>))) \<and>
   \<not> showConfirmation (fst (handleSubmit
      (HttpResponse 200 (Inr (JObj
        [(js ''requires_password'', JBool True), (js ''success'', JBool True),
         (js ''extracted_data'', JObj [(js ''amount'', JNum (Fin 120))]),
         (js ''status'', JStr (0x2705 # js '' done''))])))
      (\<lparr>status = StatusIdle, password = [], requiresPassword = False,
          selectedFile = Some (File (js ''statement.pdf'')), message = JStr [],
          extractedData = JNull, showConfirmation = False, isSaving = False\<rparr>,
       \<lparr>sb_token = Some (js ''tok''), session = Some (js ''tok''), effects = []\<rparr>))) \<and>
   showConfirmation (fst (handleSubmit
      (HttpResponse 200 (Inr (JObj
        [(js ''success'', JBool True),
         (js ''extracted_data'', JObj [(js ''amount'', JNum (Fin 120))])])))
      (\<lparr>status = StatusIdle, password = [], requiresPassword = False,
          selectedFile = Some (File (js ''statement.pdf'')), message = JStr [],
          extractedData = JNull, showConfirmation = False, isSaving = False\<rparr>,
       \<lparr>sb_token = Some (js ''tok''), session = Some (js ''tok''), effects = []\<rparr>))) \<and>
   status (fst (handleSubmit
      (HttpResponse 200 (Inr (JObj [(js ''status'', JStr (0x2705 # js '' Saved''))])))
      (\<lparr>status = StatusIdle, password = [], requiresPassword = False,
          selectedFile = Some (File (js ''statement.pdf'')), message = JStr [],
          extractedData = JNull, showConfirmation = False, isSaving = False\<rparr>,
       \<lparr>sb_token = Some (js ''tok''), session = Some (js ''tok''), effects = []\<rparr>))) = StatusSuccess \<and>
   status (fst (handleSubmit
      (HttpResponse 200 (Inr (JObj [(js ''status'', JStr (js ''Could not read the file''))])))
      (\<lparr>status = StatusIdle, password = [], requiresPassword = False,
          selectedFile = Some (File (js ''statement.pdf'')), message = JStr [],
          extractedData = JNull, showConfirmation = False, isSaving = False\<rparr>,
       \<lparr>sb_token = Some (js ''tok''), session = Some (js ''tok''), effects = []\<rparr>))) = StatusError"
proof -
  let ?s = "\<lparr>status = StatusIdle, password = [], requiresPassword = False,
          selectedFile = Some (File (js ''statement.pdf'')), message = JStr [],
          extractedData = JNull, showConfirmation = False, isSaving = False\<rparr>"
  let ?w = "\<lparr>sb_token = Some (js ''tok''), session = Some (js ''tok''), effects = []\<rparr>"
  let ?f1 = "[(js ''requires_password'', JBool True), (js ''success'', JBool True),
         (js ''extracted_data'', JObj [(js ''amount'', JNum (Fin 120))]),
         (js ''status'', JStr (0x2705 # js '' done''))]"
  let ?f2 = "[(js ''success'', JBool True),
         (js ''extracted_data'', JObj [(js ''amount'', JNum (Fin 120))])]"
  let ?f3 = "[(js ''status'', JStr (0x2705 # js '' Saved''))]"
  let ?f4 = "[(js ''status'', JStr (js ''Could not read the file''))]"
  have t: "sb_token ?w = Some (js ''tok'')" "js ''tok'' \<noteq> []" "(200::nat) \<noteq> 401"
    by simp_all
  have n4: "\<not> str_includes (js ''Could not read the file'') [0x2705]"
    by (simp add: js_def)
  note p = upload_response_priority [OF t, where s = ?s]
  have 1: "handleSubmit (HttpResponse 200 (Inr (JObj ?f1))) (?s, ?w) =
      (?s\<lparr>status := StatusIdle,
           message := JStr ([0xD83D, 0xDD10] @
             js '' This PDF requires a password. Please enter it below.''),
           requiresPassword := True\<rparr>,
       emit (Fetch (Upload (selectedFile ?s)
               (if password ?s = [] then None else Some (password ?s)) (js ''tok''))) ?w)"
    using p [of ?f1] by simp
  have 2: "handleSubmit (HttpResponse 200 (Inr (JObj ?f2))) (?s, ?w) =
      (?s\<lparr>status := StatusIdle, message := JStr [],
           extractedData := get ?f2 (js ''extracted_data''), showConfirmation := True\<rparr>,
       emit FormReset
         (emit (Fetch (Upload (selectedFile ?s)
                 (if password ?s = [] then None else Some (password ?s)) (js ''tok''))) ?w))"
    using p [of ?f2] by simp
  have 3: "status (fst (handleSubmit (HttpResponse 200 (Inr (JObj ?f3))) (?s, ?w))) = StatusSuccess"
    using p [of ?f3] by simp
  have 4: "status (fst (handleSubmit (HttpResponse 200 (Inr (JObj ?f4))) (?s, ?w))) = StatusError"
    using p [of ?f4] n4 by simp
  show ?thesis
    by (simp only: 1 2 3 4) simp
qed

section \<open>A 401 answer\<close>

text \<open>
  What \<^verbatim>\<open>handleSubmit\<close> does with a 401: the token is removed, the router is sent to
  \<^verbatim>\<open>/login\<close>, and the one request is all that went out.
\<close>

lemma handleSubmit_401:
  assumes "sb_token w = Some token" and "token \<noteq> []"
  shows "handleSubmit (HttpResponse 401 body) (s, w) =
     (s\<lparr>status := StatusUploading, message := JStr []\<rparr>,
      w\<lparr>sb_token := None,
        effects := effects w @
          [Fetch (Upload (selectedFile s)
             (if password s = [] then None else Some (password s)) token),
           RouterPush (js ''/login'')]\<rparr>)"
  using assms by (simp add: handleSubmit_def on_upload_response_def emit_def Let_def)

text \<open>
  \<^verbatim>\<open>handleDelete\<close> with a 401: an alert, and the session and the token as they were.
\<close>

lemma handleDelete_401:
  assumes "session w = Some access_token"
  shows "handleDelete True ident (HttpResponse 401 body) w =
     w\<lparr>effects := effects w @
          [Fetch (Delete ident access_token), Alert (js ''Failed to delete'')]\<rparr>"
  using assms by (simp add: handleDelete_def deleteTransactionAPI_def emit_def Let_def)

text \<open>
  C1, at a 401 answer to the confirm-save request. The claim has every remote call
  clear the stored credential and signal re-authentication. \<^verbatim>\<open>handleConfirmTransaction\<close>
  treats the 401 as any failed save: status \<^verbatim>\<open>error\<close>, the message
  "Failed to save: Unauthorized", the token and the session untouched, no navigation;
  the request went out once.
\<close>

theorem confirm_save_401_keeps_credential:
  "handleConfirmTransaction eng d (HttpResponse 401 body)
     (s, \<lparr>sb_token = Some token, session = Some access_token, effects = []\<rparr>) =
   (s\<lparr>status := StatusError,
      message := JStr (0x274C # js '' Failed to save: Unauthorized''),
      isSaving := False\<rparr>,
    \<lparr>sb_token = Some token, session = Some access_token,
     effects = [Fetch (Confirm (without_confidence d) access_token)]\<rparr>)"
proof -
  have m: "js '' Failed to save: '' @ js ''Unauthorized'' = js '' Failed to save: Unauthorized''"
    by (simp add: js_def)
  show ?thesis
    by (simp add: handleConfirmTransaction_def confirmTransaction_def emit_def Let_def m)
qed

section \<open>A failed save\<close>

lemma handleConfirm_keeps_copy:
  assumes "handleConfirm s = Inr (m, call)"
  shows "editedData m = editedData s"
  using assms by (auto simp: handleConfirm_def split: option.splits sum.splits)

lemma confirmTransaction_detail:
  assumes "st \<noteq> 401" and "\<not> ok st" and "get body (js ''detail'') = JStr detail"
    and "detail \<noteq> []"
  shows "confirmTransaction eng (HttpResponse st (Inr (JObj body))) = Inl (Error detail)"
  using assms by (simp add: confirmTransaction_def)

text \<open>
  C9. When \<^verbatim>\<open>handleConfirm\<close> has handed the working copy over and the call of
  \<^verbatim>\<open>confirmTransaction\<close> fails, the modal stays open (\<^verbatim>\<open>showConfirmation\<close> and the
  \<^verbatim>\<open>extractedData\<close> prop are as before, so a modal in review stays in review), the working
  copy is the one that was there, the status is \<^verbatim>\<open>error\<close> and the message carries the
  error's text; for a rejection with a \<^verbatim>\<open>detail\<close> string that text is the server's detail.
  An open modal is closed by this step if and only if \<^verbatim>\<open>confirmTransaction\<close> succeeds.
\<close>

theorem failed_save_keeps_review_open:
  assumes "handleConfirm (modal a) = Inr (m, Some d)" and "session w = Some access_token"
  shows "\<exists>a' w'. confirm eng outcome (a, w) = Inr (a', w') \<and>
     (\<forall>e. confirmTransaction eng outcome = Inl e \<longrightarrow>
        showConfirmation (upload a') = showConfirmation (upload a) \<and>
        extractedData (upload a') = extractedData (upload a) \<and>
        editedData (modal a') = editedData (modal a) \<and>
        (reviewing a \<longrightarrow> reviewing a') \<and>
        status (upload a') = StatusError \<and>
        message (upload a') =
          JStr (0x274C # js '' Failed to save: '' @
            (if error_message eng e = [] then js ''Unknown error'' else error_message eng e))) \<and>
     (\<forall>st body detail.
        outcome = HttpResponse st (Inr (JObj body)) \<and> st \<noteq> 401 \<and> \<not> ok st \<and>
        get body (js ''detail'') = JStr detail \<and> detail \<noteq> [] \<longrightarrow>
        confirmTransaction eng outcome = Inl (Error detail) \<and>
        message (upload a') = JStr (0x274C # js '' Failed to save: '' @ detail)) \<and>
     (showConfirmation (upload a) \<longrightarrow>
        (\<not> showConfirmation (upload a') \<longleftrightarrow> (\<exists>r. confirmTransaction eng outcome = Inr r)))"
proof -
  define uw where "uw = handleConfirmTransaction eng d outcome (upload a, w)"
  define u where "u = fst uw"
  define a' where "a' = \<lparr>upload = u,
      modal = (if extractedData u \<noteq> extractedData (upload a)
               then useEffect_extractedData (extractedData u) m else m)\<rparr>"
  have c: "confirm eng outcome (a, w) = Inr (a', snd uw)"
    using assms(1) by (simp add: confirm_def Let_def uw_def u_def a'_def)
  have copy: "editedData m = editedData (modal a)"
    using assms(1) by (rule handleConfirm_keeps_copy)
  have fail: "showConfirmation (upload a') = showConfirmation (upload a) \<and>
        extractedData (upload a') = extractedData (upload a) \<and>
        editedData (modal a') = editedData (modal a) \<and>
        (reviewing a \<longrightarrow> reviewing a') \<and>
        status (upload a') = StatusError \<and>
        message (upload a') =
          JStr (0x274C # js '' Failed to save: '' @
            (if error_message eng e = [] then js ''Unknown error'' else error_message eng e))"
    if e: "confirmTransaction eng outcome = Inl e" for e
  proof -
    have u: "u = (upload a)\<lparr>isSaving := False, status := StatusError,
        message := JStr (0x274C # js '' Failed to save: '' @
          (if error_message eng e = [] then js ''Unknown error'' else error_message eng e))\<rparr>"
      using assms(2) e by (simp add: u_def uw_def handleConfirmTransaction_def Let_def)
    have m: "modal a' = m" by (simp add: a'_def u)
    show ?thesis
      by (simp add: reviewing_def m copy) (simp add: a'_def u)
  qed
  have succeed: "\<not> showConfirmation (upload a')"
    if r: "confirmTransaction eng outcome = Inr r" for r
    using assms(2) r by (simp add: a'_def u_def uw_def handleConfirmTransaction_def Let_def)
  have closes: "\<not> showConfirmation (upload a') \<longleftrightarrow> (\<exists>r. confirmTransaction eng outcome = Inr r)"
    if "showConfirmation (upload a)"
  proof (cases "confirmTransaction eng outcome")
    case (Inl e)
    then show ?thesis using fail [OF Inl] that by simp
  next
    case (Inr r)
    then show ?thesis using succeed [OF Inr] by simp
  qed
  have detail: "confirmTransaction eng outcome = Inl (Error detail) \<and>
        message (upload a') = JStr (0x274C # js '' Failed to save: '' @ detail)"
    if "outcome = HttpResponse st (Inr (JObj body)) \<and> st \<noteq> 401 \<and> \<not> ok st \<and>
        get body (js ''detail'') = JStr detail \<and> detail \<noteq> []" for st body detail
  proof -
    have e: "confirmTransaction eng outcome = Inl (Error detail)"
      using that confirmTransaction_detail [of st body detail eng] by simp
    have "message (upload a') = JStr (0x274C # js '' Failed to save: '' @ detail)"
      using fail [OF e] that by simp
    with e show ?thesis by (intro conjI)
  qed
  from c fail detail closes show ?thesis by blast
qed

text \<open>
  The server answers 400 with the detail "Duplicate transaction" to a valid working copy
  under review: the modal is still in review with the same working copy, and the message
  ends with the server's words.
\<close>

theorem failed_save_keeps_review_open_witness:
  "\<forall>eng. \<exists>a' w'.
     confirm eng
       (HttpResponse 400 (Inr (JObj [(js ''detail'', JStr (js ''Duplicate transaction''))])))
       (\<lparr>upload =
           \<lparr>status = StatusIdle, password = [], requiresPassword = False, selectedFile = None,
              message = JStr [],
              extractedData = JObj
                [(js ''amount'', JNum (Fin 120)), (js ''sender'', JStr (js ''Alice'')),
                 (js ''receiver'', JStr (js ''Bob'')), (js ''date'', JStr (js ''2024-01-15'')),
                 (js ''time'', JStr (js ''10:30'')), (js ''transaction_id'', JStr (js ''TXN12345'')),
                 (js ''category'', JStr (js ''Food'')),
                 (js ''confidence'', JObj [(js ''amount'', JNum (Fin (1 / 2)))])],
              showConfirmation = True, isSaving = False\<rparr>,
          modal =
           \<lparr>editedData = Some
                [(js ''amount'', JNum (Fin 120)), (js ''sender'', JStr (js ''Alice'')),
                 (js ''receiver'', JStr (js ''Bob'')), (js ''date'', JStr (js ''2024-01-15'')),
                 (js ''time'', JStr (js ''10:30'')), (js ''transaction_id'', JStr (js ''TXN12345'')),
                 (js ''category'', JStr (js ''Food'')),
                 (js ''confidence'', JObj [(js ''amount'', JNum (Fin (1 / 2)))])],
              editingField = None, validationErrors = [], warnings = []\<rparr>\<rparr>,
        \<lparr>sb_token = Some (js ''tok''), session = Some (js ''tok''), effects = []\<rparr>) =
       Inr (a', w') \<and>
     reviewing a' \<and>
     editedData (modal a') = Some
       [(js ''amount'', JNum (Fin 120)), (js ''sender'', JStr (js ''Alice'')),
        (js ''receiver'', JStr (js ''Bob'')), (js ''date'', JStr (js ''2024-01-15'')),
        (js ''time'', JStr (js ''10:30'')), (js ''transaction_id'', JStr (js ''TXN12345'')),
        (js ''category'', JStr (js ''Food'')),
        (js ''confidence'', JObj [(js ''amount'', JNum (Fin (1 / 2)))])] \<and>
     status (upload a') = StatusError \<and>
     message (upload a') = JStr (0x274C # js '' Failed to save: Duplicate transaction'')"
proof
  fix eng
  let ?d = "[(js ''amount'', JNum (Fin 120)), (js ''sender'', JStr (js ''Alice'')),
        (js ''receiver'', JStr (js ''Bob'')), (js ''date'', JStr (js ''2024-01-15'')),
        (js ''time'', JStr (js ''10:30'')), (js ''transaction_id'', JStr (js ''TXN12345'')),
        (js ''category'', JStr (js ''Food'')),
        (js ''confidence'', JObj [(js ''amount'', JNum (Fin (1 / 2)))])]"
  let ?m = "\<lparr>editedData = Some ?d, editingField = None, validationErrors = [], warnings = []\<rparr>"
  let ?u = "\<lparr>status = StatusIdle, password = [], requiresPassword = False, selectedFile = None,
      message = JStr [], extractedData = JObj ?d, showConfirmation = True, isSaving = False\<rparr>"
  let ?a = "\<lparr>upload = ?u, modal = ?m\<rparr>"
  let ?w = "\<lparr>sb_token = Some (js ''tok''), session = Some (js ''tok''), effects = []\<rparr>"
  let ?body = "[(js ''detail'', JStr (js ''Duplicate transaction''))]"
  let ?out = "HttpResponse 400 (Inr (JObj ?body))"
  have amt: "validateField (js ''amount'') (JNum (Fin 120)) = Inr ([], [])"
    using validateField_amount [of "JNum (Fin 120)" "Fin 120"] by simp
  have hc: "handleConfirm (modal ?a) = Inr (?m, Some ?d)"
    by (simp add: handleConfirm_def keys_def amt validateField_sample_names validateField_other)
  have se: "session ?w = Some (js ''tok'')" by simp
  have rv: "reviewing ?a" by (simp add: reviewing_def)
  have cat: "js '' Failed to save: '' @ js ''Duplicate transaction'' =
      js '' Failed to save: Duplicate transaction''"
    by (simp add: js_def)
  have pre: "?out = HttpResponse 400 (Inr (JObj ?body)) \<and> (400::nat) \<noteq> 401 \<and> \<not> ok 400 \<and>
      get ?body (js ''detail'') = JStr (js ''Duplicate transaction'') \<and>
      js ''Duplicate transaction'' \<noteq> []"
    by (simp add: ok_def)
  from failed_save_keeps_review_open [OF hc se, of eng ?out] obtain a' w'
    where c: "confirm eng ?out (?a, ?w) = Inr (a', w')"
      and f: "\<forall>e. confirmTransaction eng ?out = Inl e \<longrightarrow>
        showConfirmation (upload a') = showConfirmation (upload ?a) \<and>
        extractedData (upload a') = extractedData (upload ?a) \<and>
        editedData (modal a') = editedData (modal ?a) \<and>
        (reviewing ?a \<longrightarrow> reviewing a') \<and>
        status (upload a') = StatusError \<and>
        message (upload a') =
          JStr (0x274C # js '' Failed to save: '' @
            (if error_message eng e = [] then js ''Unknown error'' else error_message eng e))"
      and dt: "\<forall>st body detail.
        ?out = HttpResponse st (Inr (JObj body)) \<and> st \<noteq> 401 \<and> \<not> ok st \<and>
        get body (js ''detail'') = JStr detail \<and> detail \<noteq> [] \<longrightarrow>
        confirmTransaction eng ?out = Inl (Error detail) \<and>
        message (upload a') = JStr (0x274C # js '' Failed to save: '' @ detail)"
    by blast
  from dt pre have e: "confirmTransaction eng ?out = Inl (Error (js ''Duplicate transaction''))"
    and msg: "message (upload a') =
      JStr (0x274C # js '' Failed to save: '' @ js ''Duplicate transaction'')"
    by blast+
  from f e have "reviewing a'" and "editedData (modal a') = Some ?d"
    and "status (upload a') = StatusError"
    using rv by auto
  then show "\<exists>a' w'. confirm eng ?out (?a, ?w) = Inr (a', w') \<and> reviewing a' \<and>
      editedData (modal a') = Some ?d \<and> status (upload a') = StatusError \<and>
      message (upload a') = JStr (0x274C # js '' Failed to save: Duplicate transaction'')"
    using c msg cat by auto
qed

end
